theory Spec2Isabelle
  imports Complex_Main
begin

section \<open>JavaScript text\<close>

text \<open>
  A JavaScript string is a sequence of UTF-16 code units, and \<open>length\<close>, \<open>substring\<close>,
  \<open>includes\<close> and the regular expressions of the source all count and compare code units.
  A string is therefore a list of code units, each a natural number; \<open>asc\<close> turns an ASCII
  literal into one.
\<close>

type_synonym jsstring = "nat list"

definition asc :: "string \<Rightarrow> jsstring" where
  "asc s = map of_char s"

text \<open>White space as \<open>trim\<close> and the class \<open>\s\<close> see it: WhiteSpace and LineTerminator.\<close>

definition isWhiteSpace :: "nat \<Rightarrow> bool" where
  "isWhiteSpace c =
     (c = 9 \<or> c = 10 \<or> c = 11 \<or> c = 12 \<or> c = 13 \<or> c = 32 \<or> c = 160 \<or> c = 5760
      \<or> (8192 \<le> c \<and> c \<le> 8202) \<or> c = 8232 \<or> c = 8233 \<or> c = 8239 \<or> c = 8287
      \<or> c = 12288 \<or> c = 65279)"

definition isDigit :: "nat \<Rightarrow> bool" where
  "isDigit c = (48 \<le> c \<and> c \<le> 57)"

definition isUpper :: "nat \<Rightarrow> bool" where
  "isUpper c = (65 \<le> c \<and> c \<le> 90)"

definition isLower :: "nat \<Rightarrow> bool" where
  "isLower c = (97 \<le> c \<and> c \<le> 122)"

text \<open>The class \<open>\w\<close>: ASCII letters, digits and the underscore.\<close>

definition isWordChar :: "nat \<Rightarrow> bool" where
  "isWordChar c = (isUpper c \<or> isLower c \<or> isDigit c \<or> c = 95)"

text \<open>
  \<open>toLowerCase\<close>, one code unit at a time: exact for the code units below 256 (ASCII and
  Latin-1 capitals move down by 32); the host's case mapping of other scripts is not
  modelled and such code units are left as they are.
\<close>

definition lowerUnit :: "nat \<Rightarrow> nat" where
  "lowerUnit c =
     (if isUpper c \<or> (192 \<le> c \<and> c \<le> 214) \<or> (216 \<le> c \<and> c \<le> 222) then c + 32 else c)"

definition toLowerCase :: "jsstring \<Rightarrow> jsstring" where
  "toLowerCase s = map lowerUnit s"

definition trim :: "jsstring \<Rightarrow> jsstring" where
  "trim s = rev (dropWhile isWhiteSpace (rev (dropWhile isWhiteSpace s)))"

fun startsWith :: "jsstring \<Rightarrow> jsstring \<Rightarrow> bool" where
  "startsWith s [] = True"
| "startsWith [] (p # ps) = False"
| "startsWith (c # cs) (p # ps) = (c = p \<and> startsWith cs ps)"

text \<open>\<open>s.includes(sub)\<close>: \<open>sub\<close> occurs in \<open>s\<close> as a contiguous run.\<close>

fun str_includes :: "jsstring \<Rightarrow> jsstring \<Rightarrow> bool" where
  "str_includes [] sub = (sub = [])"
| "str_includes (c # cs) sub = (startsWith (c # cs) sub \<or> str_includes cs sub)"

text \<open>
  \<open>s.split(/[...]+/)\<close> for a character class \<open>p\<close>: the pieces between the maximal runs of
  class members. A run at the start or at the end leaves an empty piece there, and the
  empty string splits into one empty piece. \<open>inRun\<close> tells that the previous code unit
  belonged to a run, \<open>cur\<close> holds the current piece in reverse.
\<close>

fun splitRuns :: "(nat \<Rightarrow> bool) \<Rightarrow> bool \<Rightarrow> jsstring \<Rightarrow> jsstring \<Rightarrow> jsstring list" where
  "splitRuns p inRun cur [] = [rev cur]"
| "splitRuns p inRun cur (c # cs) =
     (if p c then (if inRun then splitRuns p True [] cs
                   else rev cur # splitRuns p True [] cs)
      else splitRuns p False (c # cur) cs)"

definition splitOn :: "(nat \<Rightarrow> bool) \<Rightarrow> jsstring \<Rightarrow> jsstring list" where
  "splitOn p s = splitRuns p False [] s"

text \<open>The class \<open>[.!?]\<close> of sentence terminators.\<close>

definition isTerminator :: "nat \<Rightarrow> bool" where
  "isTerminator c = (c = 46 \<or> c = 33 \<or> c = 63)"

section \<open>Regular expressions of the source\<close>

text \<open>
  The patterns that the source applies to text are, with few exceptions, alternatives of
  sequences of quantified character classes and zero-width assertions. \<open>rx_seq\<close> matches
  one such sequence at the head of the input the way the host's backtracking matcher
  does: a quantifier takes as many code units as it can and gives them back one by one
  when the rest of the sequence fails. It returns the text consumed by each item of the
  sequence, so that a replacement can refer to it as the source refers to \<open>$1\<close>, \<open>$2\<close>.
  \<open>prev\<close> is the code unit before the current position, for \<open>\b\<close> and \<open>^\<close>.
\<close>

datatype quant = One | Opt | Star | Plus

datatype item =
    Cls "nat \<Rightarrow> bool" quant
  | WordBoundary
  | LineEnd
  | InputStart
  | InputEnd

definition isLineTerminator :: "nat \<Rightarrow> bool" where
  "isLineTerminator c = (c = 10 \<or> c = 13 \<or> c = 8232 \<or> c = 8233)"

definition isWordAt :: "nat option \<Rightarrow> bool" where
  "isWordAt u = (case u of None \<Rightarrow> False | Some c \<Rightarrow> isWordChar c)"

definition headUnit :: "jsstring \<Rightarrow> nat option" where
  "headUnit s = (case s of [] \<Rightarrow> None | c # cs \<Rightarrow> Some c)"

fun rx_seq :: "item list \<Rightarrow> nat option \<Rightarrow> jsstring \<Rightarrow> jsstring list option" where
  "rx_seq [] prev s = Some []"
| "rx_seq (Cls p One # its) prev [] = None"
| "rx_seq (Cls p One # its) prev (c # cs) =
     (if p c then map_option ((#) [c]) (rx_seq its (Some c) cs) else None)"
| "rx_seq (Cls p Opt # its) prev [] = map_option ((#) []) (rx_seq its prev [])"
| "rx_seq (Cls p Opt # its) prev (c # cs) =
     (if p c
      then (case rx_seq its (Some c) cs of
              Some segs \<Rightarrow> Some ([c] # segs)
            | None \<Rightarrow> map_option ((#) []) (rx_seq its prev (c # cs)))
      else map_option ((#) []) (rx_seq its prev (c # cs)))"
| "rx_seq (Cls p Star # its) prev [] = map_option ((#) []) (rx_seq its prev [])"
| "rx_seq (Cls p Star # its) prev (c # cs) =
     (if p c
      then (case rx_seq (Cls p Star # its) (Some c) cs of
              Some (seg # segs) \<Rightarrow> Some ((c # seg) # segs)
            | _ \<Rightarrow> map_option ((#) []) (rx_seq its prev (c # cs)))
      else map_option ((#) []) (rx_seq its prev (c # cs)))"
| "rx_seq (Cls p Plus # its) prev [] = None"
| "rx_seq (Cls p Plus # its) prev (c # cs) =
     (if p c
      then (case rx_seq (Cls p Star # its) (Some c) cs of
              Some (seg # segs) \<Rightarrow> Some ((c # seg) # segs)
            | _ \<Rightarrow> None)
      else None)"
| "rx_seq (WordBoundary # its) prev s =
     (if isWordAt prev \<noteq> isWordAt (headUnit s)
      then map_option ((#) []) (rx_seq its prev s) else None)"
| "rx_seq (LineEnd # its) prev s =
     (if s = [] \<or> isLineTerminator (hd s)
      then map_option ((#) []) (rx_seq its prev s) else None)"
| "rx_seq (InputStart # its) prev s =
     (if prev = None then map_option ((#) []) (rx_seq its prev s) else None)"
| "rx_seq (InputEnd # its) prev s =
     (if s = [] then map_option ((#) []) (rx_seq its prev s) else None)"

text \<open>A pattern is a list of alternatives, tried in order.\<close>

fun rx_first :: "item list list \<Rightarrow> nat option \<Rightarrow> jsstring \<Rightarrow> jsstring list option" where
  "rx_first [] prev s = None"
| "rx_first (a # alts) prev s =
     (case rx_seq a prev s of Some segs \<Rightarrow> Some segs | None \<Rightarrow> rx_first alts prev s)"

text \<open>
  The scan of a global (\<open>g\<close>) pattern over a text: the leftmost match, then the leftmost
  match after it, and so on. The result lists, in order, the code units that no match
  covers (\<open>Inl\<close>) and the matches (\<open>Inr\<close>, item by item). After an empty match the host
  moves on by one code unit.
\<close>

function rx_scan :: "item list list \<Rightarrow> nat option \<Rightarrow> jsstring \<Rightarrow> (nat + jsstring list) list" where
  "rx_scan alts prev [] =
     (case rx_first alts prev [] of Some segs \<Rightarrow> [Inr segs] | None \<Rightarrow> [])"
| "rx_scan alts prev (c # cs) =
     (case rx_first alts prev (c # cs) of
        None \<Rightarrow> Inl c # rx_scan alts (Some c) cs
      | Some segs \<Rightarrow>
          (if length (concat segs) = 0 then Inr segs # Inl c # rx_scan alts (Some c) cs
           else Inr segs # rx_scan alts (Some ((c # cs) ! (length (concat segs) - 1)))
                             (drop (length (concat segs)) (c # cs))))"
  by pat_completeness auto
termination
  by (relation "measure (\<lambda>(alts, prev, s). length s)") auto

text \<open>\<open>text.replace(/.../g, r)\<close>, the replacement computed from the items of the match.\<close>

definition rx_replace :: "item list list \<Rightarrow> (jsstring list \<Rightarrow> jsstring) \<Rightarrow> jsstring \<Rightarrow> jsstring" where
  "rx_replace alts r s = concat (map (case_sum (\<lambda>c. [c]) r) (rx_scan alts None s))"

text \<open>\<open>text.match(/.../g)\<close>: the matched texts, in order (the host gives null for none).\<close>

definition rx_match_all :: "item list list \<Rightarrow> jsstring \<Rightarrow> jsstring list" where
  "rx_match_all alts s = concat (map (case_sum (\<lambda>c. []) (\<lambda>segs. [concat segs])) (rx_scan alts None s))"

text \<open>\<open>/.../.test(text)\<close>: there is a match somewhere.\<close>

definition rx_test :: "item list list \<Rightarrow> jsstring \<Rightarrow> bool" where
  "rx_test alts s = (rx_match_all alts s \<noteq> [])"

text \<open>\<open>text.replace(/.../, r)\<close> without the \<open>g\<close> flag: only the leftmost match is replaced.\<close>

fun replace_first_piece :: "(jsstring list \<Rightarrow> jsstring) \<Rightarrow> (nat + jsstring list) list \<Rightarrow> jsstring" where
  "replace_first_piece r [] = []"
| "replace_first_piece r (Inl c # ps) = c # replace_first_piece r ps"
| "replace_first_piece r (Inr segs # ps) =
     r segs @ concat (map (case_sum (\<lambda>c. [c]) concat) ps)"

definition rx_replace_first :: "item list list \<Rightarrow> (jsstring list \<Rightarrow> jsstring) \<Rightarrow> jsstring \<Rightarrow> jsstring" where
  "rx_replace_first alts r s = replace_first_piece r (rx_scan alts None s)"

text \<open>Items for one code unit, for a literal text, and for a literal under the \<open>i\<close> flag.\<close>

definition unit :: "nat \<Rightarrow> quant \<Rightarrow> item" where
  "unit c q = Cls (\<lambda>x. x = c) q"

definition lit :: "jsstring \<Rightarrow> item list" where
  "lit s = map (\<lambda>c. Cls (\<lambda>x. x = c) One) s"

definition lit_i :: "jsstring \<Rightarrow> item list" where
  "lit_i s = map (\<lambda>c. Cls (\<lambda>x. lowerUnit x = lowerUnit c) One) s"

section \<open>Exceptions\<close>

text \<open>
  A function of the source either returns or throws. What is thrown is a value of
  \<open>js_error\<close>, and a function that may throw returns \<open>js_error + 'a\<close> with \<open>Inl\<close> for the
  exception. \<open>tryCatch\<close> is the \<open>try { ... } catch (e) { ... }\<close> statement whose two blocks
  both end in \<open>return\<close>: the handler runs on what the body throws, and may throw itself.
\<close>

datatype js_error = SyntaxError | ReferenceError | RangeError | TypeError | Error jsstring

definition bindE :: "'e + 'a \<Rightarrow> ('a \<Rightarrow> 'e + 'b) \<Rightarrow> 'e + 'b" where
  "bindE m f = (case m of Inl e \<Rightarrow> Inl e | Inr x \<Rightarrow> f x)"

definition tryCatch :: "'e + 'a \<Rightarrow> ('e \<Rightarrow> 'e + 'a) \<Rightarrow> 'e + 'a" where
  "tryCatch body handler = (case body of Inl e \<Rightarrow> handler e | Inr x \<Rightarrow> Inr x)"

section \<open>The text processor\<close>

text \<open>
  The options of \<open>processText\<close> are optional fields; \<open>None\<close> is a field that the caller
  left out, and the spread \<open>{ ...defaultOptions, ...options }\<close> then takes the default.
\<close>

record TextProcessingOptions =
  opt_removeOCRErrors :: "bool option"
  opt_standardizeFormatting :: "bool option"
  opt_fixEncoding :: "bool option"
  opt_normalizeWhitespace :: "bool option"
  opt_preserveStructure :: "bool option"
  opt_expandAcronyms :: "bool option"

record DocSection =
  secTitle :: jsstring
  secContent :: jsstring
  startIndex :: nat
  endIndex :: nat

record ProcessedTextResult =
  cleanedText :: jsstring
  originalLength :: nat
  processedLength :: nat
  improvementsApplied :: "jsstring list"
  qualityScore :: real
  sections :: "DocSection list option"

definition flag :: "bool \<Rightarrow> bool option \<Rightarrow> bool" where
  "flag dflt given = (case given of None \<Rightarrow> dflt | Some b \<Rightarrow> b)"

text \<open>A list of global replacements applied one after the other.\<close>

definition applyReplacements ::
  "(item list list \<times> (jsstring list \<Rightarrow> jsstring)) list \<Rightarrow> jsstring \<Rightarrow> jsstring" where
  "applyReplacements fixes t = foldl (\<lambda>cleaned (pat, r). rx_replace pat r cleaned) t fixes"

text \<open>
  \<open>encodingFixes\<close>, as the source file has them: fifteen literal code-unit sequences, the
  class of U+FFFD and U+FEFF, and U+0000.
\<close>

definition encodingFixes :: "(item list list \<times> (jsstring list \<Rightarrow> jsstring)) list" where
  "encodingFixes = map (\<lambda>(pat, rep). (pat, \<lambda>segs. rep))
     [([lit [1043, 1118, 1074, 8218, 172, 1074, 8222, 1118]], [39]),
      ([lit [1043, 1118, 1074, 8218, 172, 1045, 8220]], [34]),
      ([lit [1043, 1118, 1074, 8218, 172, 157]], [34]),
      ([lit [1043, 1118, 1074, 8218, 172, 34]], [1074, 1026, 8220]),
      ([lit [1043, 1118, 1074, 8218, 172, 34]], [1074, 1026, 8221]),
      ([lit [1043, 8218]], []),
      ([lit [1043, 1118, 1074, 8218, 172, 1042, 1118]], [1074, 1026, 1118]),
      ([lit [1043, 1118, 1074, 8218, 172, 1042, 166]], [1074, 1026, 166]),
      ([lit [1043, 1107, 1042, 1038]], [1043, 1038]),
      ([lit [1043, 1107, 1042, 169]], [1043, 169]),
      ([lit [1043, 1107, 1042, 173]], [1043, 173]),
      ([lit [1043, 1107, 1042, 1110]], [1043, 1110]),
      ([lit [1043, 1107, 1042, 1108]], [1043, 1108]),
      ([lit [1043, 1107, 1042, 177]], [1043, 177]),
      ([lit [1043, 1107, 1042, 167]], [1043, 167]),
      ([[Cls (\<lambda>c. c = 65533 \<or> c = 65279) One]], []),
      ([lit [0]], [])]"

text \<open>
  \<open>fixEncodingIssues\<close>. The Unicode normalisation \<open>normalize('NFKC')\<close> belongs to the
  host and is the parameter \<open>nfkc\<close>; the source guards the call with a \<open>try\<close> of its own.
\<close>

definition fixEncodingIssues :: "(jsstring \<Rightarrow> jsstring) \<Rightarrow> jsstring \<Rightarrow> jsstring" where
  "fixEncodingIssues nfkc t = nfkc (applyReplacements encodingFixes t)"

text \<open>
  \<open>commonOCRErrors\<close> in the iteration order of the \<open>Map\<close>. The source lists one key
  twice (the sixteenth entry here); a \<open>Map\<close> keeps the place of the first and the value
  of the second.
\<close>

definition commonOCRErrors :: "(jsstring \<times> jsstring) list" where
  "commonOCRErrors =
     [(asc ''rn'', asc ''m''),
      (asc ''vv'', asc ''w''),
      (asc ''cl'', asc ''d''),
      (asc ''II'', asc ''ll''),
      (asc ''1l'', asc ''ll''),
      (asc ''0'', asc ''O''),
      (asc ''5'', asc ''S''),
      (asc ''8'', asc ''B''),
      (asc ''6'', asc ''G''),
      (asc ''1'', asc ''I''),
      (asc ''2'', asc ''Z''),
      ([1074, 8218, 172], asc ''C''),
      ([1043, 1118, 1074, 8218, 172, 1074, 8222, 1118], [39]),
      ([1043, 1118, 1074, 8218, 172, 1045, 8220], [34]),
      ([1043, 1118, 1074, 8218, 172, 157], [34]),
      ([1043, 1118, 1074, 8218, 172, 34], [1074, 1026, 8221]),
      (asc ''  '', asc '' ''),
      (asc ''   '', asc '' ''),
      ([9], asc '' ''),
      (asc '' '' @ [10], [10]),
      ([10] @ asc '' '', [10]),
      ([1087, 172, 1027], asc ''fi''),
      ([1087, 172, 8218], asc ''fl''),
      ([1087, 172, 1026], asc ''ff''),
      ([1087, 172, 1107], asc ''ffi''),
      ([1087, 172, 8222], asc ''ffl''),
      ([1054, 177], asc ''alpha''),
      ([1054, 1030], asc ''beta''),
      ([1054, 1110], asc ''gamma''),
      ([1054, 1169], asc ''delta''),
      ([1054, 181], asc ''epsilon''),
      ([1054, 1105], asc ''theta''),
      ([1054, 187], asc ''lambda''),
      ([1054, 1112], asc ''mu''),
      ([1055, 1026], asc ''pi''),
      ([1055, 1107], asc ''sigma''),
      ([1055, 8224], asc ''phi'')]"

definition isPunct :: "nat \<Rightarrow> bool" where
  "isPunct c = (c = 44 \<or> c = 46 \<or> c = 59 \<or> c = 58 \<or> c = 33 \<or> c = 63)"

text \<open>
  \<open>wordFixes\<close>, pattern by pattern:
  \<^verbatim>\<open>/(\w)-\s*\n\s*(\w)/g\<close>, \<^verbatim>\<open>/(\w)\s+(\w)/g\<close>, \<^verbatim>\<open>/\s+([,.;:!?])/g\<close>,
  \<^verbatim>\<open>/([.!?])\s*([A-Z])/g\<close>, \<^verbatim>\<open>/(\d)\s+(\d)/g\<close>, \<^verbatim>\<open>/(https?:\/\/)\s+/g\<close> and
  \<^verbatim>\<open>/(\w+@)\s+(\w+\.\w+)/g\<close>, each with its replacement.
\<close>

definition wordFixes :: "(item list list \<times> (jsstring list \<Rightarrow> jsstring)) list" where
  "wordFixes =
     [([[Cls isWordChar One, unit 45 One, Cls isWhiteSpace Star, unit 10 One,
         Cls isWhiteSpace Star, Cls isWordChar One]],
       \<lambda>segs. segs ! 0 @ segs ! 5),
      ([[Cls isWordChar One, Cls isWhiteSpace Plus, Cls isWordChar One]],
       \<lambda>segs. segs ! 0 @ segs ! 2),
      ([[Cls isWhiteSpace Plus, Cls isPunct One]],
       \<lambda>segs. segs ! 1),
      ([[Cls isTerminator One, Cls isWhiteSpace Star, Cls isUpper One]],
       \<lambda>segs. segs ! 0 @ asc '' '' @ segs ! 2),
      ([[Cls isDigit One, Cls isWhiteSpace Plus, Cls isDigit One]],
       \<lambda>segs. segs ! 0 @ segs ! 2),
      ([lit (asc ''http'') @ [unit 115 Opt] @ lit (asc ''://'') @ [Cls isWhiteSpace Plus]],
       \<lambda>segs. concat (butlast segs)),
      ([[Cls isWordChar Plus, unit 64 One, Cls isWhiteSpace Plus, Cls isWordChar Plus,
         unit 46 One, Cls isWordChar Plus]],
       \<lambda>segs. segs ! 0 @ segs ! 1 @ segs ! 3 @ segs ! 4 @ segs ! 5)]"

text \<open>
  \<open>correctOCRErrors\<close>: every table entry as a global replacement of the literal key
  (the source escapes the key before it builds the pattern), then the word fixes.
\<close>

definition correctOCRErrors :: "jsstring \<Rightarrow> jsstring" where
  "correctOCRErrors t =
     applyReplacements wordFixes
       (applyReplacements (map (\<lambda>(err, correction). ([lit err], \<lambda>segs. correction)) commonOCRErrors) t)"

definition isSpaceOrTab :: "nat \<Rightarrow> bool" where
  "isSpaceOrTab c = (c = 32 \<or> c = 9)"

definition normalizeWhitespace :: "jsstring \<Rightarrow> jsstring" where
  "normalizeWhitespace t =
     trim (applyReplacements
       [([[Cls (\<lambda>c. c = 160 \<or> (8192 \<le> c \<and> c \<le> 8202) \<or> c = 8239 \<or> c = 8287 \<or> c = 12288) One]],
         \<lambda>segs. asc '' ''),
        ([[Cls isSpaceOrTab Plus]], \<lambda>segs. asc '' ''),
        ([lit [13, 10]], \<lambda>segs. [10]),
        ([lit [13]], \<lambda>segs. [10]),
        ([[unit 10 One, unit 10 One, unit 10 Plus]], \<lambda>segs. [10, 10]),
        ([[Cls isSpaceOrTab Plus, LineEnd]], \<lambda>segs. [])] t)"

text \<open>
  \<open>standardizeFormatting\<close>. The classes and replacements are those of the source file,
  code unit by code unit.
\<close>

definition standardizeFormatting :: "jsstring \<Rightarrow> jsstring" where
  "standardizeFormatting t =
     applyReplacements
       [([[unit 34 One]], \<lambda>segs. [34]),
        ([[unit 39 One]], \<lambda>segs. [39]),
        ([[Cls (\<lambda>c. c = 1074 \<or> c = 1026 \<or> c = 8217 \<or> c = 8220 \<or> c = 8221) One]],
         \<lambda>segs. [1074, 1026, 8220]),
        ([[unit 46 One, unit 46 One, unit 46 Plus]], \<lambda>segs. [1074, 1026, 166]),
        ([[Cls isWhiteSpace Plus, Cls isPunct One]], \<lambda>segs. segs ! 1),
        ([[Cls isTerminator One, Cls isUpper One]], \<lambda>segs. segs ! 0 @ asc '' '' @ segs ! 1),
        ([[Cls (\<lambda>c. c = 1074 \<or> c = 1026 \<or> c = 1118 \<or> c = 8211 \<or> c = 1028 \<or> c = 171
                     \<or> c = 1032 \<or> c = 1027 \<or> c = 1107) One]],
         \<lambda>segs. [1074, 1026, 1118]),
        ([[unit 46 One, unit 46 One, unit 46 One, unit 46 Plus]], \<lambda>segs. asc ''...''),
        ([[unit 33 One, unit 33 Plus]], \<lambda>segs. asc ''!''),
        ([[unit 63 One, unit 63 Plus]], \<lambda>segs. asc ''?'')] t"

definition academicAcronyms :: "(jsstring \<times> jsstring) list" where
  "academicAcronyms =
     [(asc ''AI'', asc ''Artificial Intelligence''),
      (asc ''ML'', asc ''Machine Learning''),
      (asc ''NLP'', asc ''Natural Language Processing''),
      (asc ''CV'', asc ''Computer Vision''),
      (asc ''DL'', asc ''Deep Learning''),
      (asc ''NN'', asc ''Neural Network''),
      (asc ''CNN'', asc ''Convolutional Neural Network''),
      (asc ''RNN'', asc ''Recurrent Neural Network''),
      (asc ''LSTM'', asc ''Long Short-Term Memory''),
      (asc ''GAN'', asc ''Generative Adversarial Network''),
      (asc ''API'', asc ''Application Programming Interface''),
      (asc ''HTTP'', asc ''HyperText Transfer Protocol''),
      (asc ''URL'', asc ''Uniform Resource Locator''),
      (asc ''PDF'', asc ''Portable Document Format''),
      (asc ''RGB'', asc ''Red Green Blue''),
      (asc ''CPU'', asc ''Central Processing Unit''),
      (asc ''GPU'', asc ''Graphics Processing Unit''),
      (asc ''RAM'', asc ''Random Access Memory''),
      (asc ''SSD'', asc ''Solid State Drive''),
      (asc ''HDD'', asc ''Hard Disk Drive''),
      (asc ''UI'', asc ''User Interface''),
      (asc ''UX'', asc ''User Experience''),
      (asc ''IoT'', asc ''Internet of Things''),
      (asc ''VR'', asc ''Virtual Reality''),
      (asc ''AR'', asc ''Augmented Reality''),
      (asc ''MR'', asc ''Mixed Reality'')]"

text \<open>
  One acronym over the scanned text: the first match becomes the expansion followed by
  the acronym in parentheses, every later match the expansion alone.
\<close>

fun expandMatches :: "jsstring \<Rightarrow> jsstring \<Rightarrow> bool \<Rightarrow> (nat + jsstring list) list \<Rightarrow> jsstring" where
  "expandMatches acronym expansion firstMatch [] = []"
| "expandMatches acronym expansion firstMatch (Inl c # ps) =
     c # expandMatches acronym expansion firstMatch ps"
| "expandMatches acronym expansion firstMatch (Inr segs # ps) =
     (if firstMatch then expansion @ asc '' ('' @ acronym @ asc '')'' else expansion)
       @ expandMatches acronym expansion False ps"

definition expandAcronyms :: "jsstring \<Rightarrow> jsstring" where
  "expandAcronyms t =
     foldl (\<lambda>expanded (acronym, expansion).
              expandMatches acronym expansion True
                (rx_scan [WordBoundary # lit acronym @ [WordBoundary]] None expanded))
           t academicAcronyms"

text \<open>\<open>text.split('\n')\<close>: the pieces between single separators.\<close>

fun splitUnit :: "nat \<Rightarrow> jsstring \<Rightarrow> jsstring \<Rightarrow> jsstring list" where
  "splitUnit sep cur [] = [rev cur]"
| "splitUnit sep cur (c # cs) =
     (if c = sep then rev cur # splitUnit sep [] cs else splitUnit sep (c # cur) cs)"

definition isAnyChar :: "nat \<Rightarrow> bool" where
  "isAnyChar c = (\<not> isLineTerminator c)"

text \<open>
  The six heading patterns of \<open>isHeading\<close>. The third, \<^verbatim>\<open>/^[A-Z\s]{5,50}$/\<close>, spans the
  whole line, so it holds when the line has five to fifty code units, all of them capital
  letters or white space.
\<close>

definition headingPatterns :: "(jsstring \<Rightarrow> bool) list" where
  "headingPatterns =
     [rx_test [[InputStart, Cls isDigit Plus, unit 46 One, Cls isWhiteSpace Plus, Cls isAnyChar Plus]],
      rx_test [[InputStart, Cls isDigit Plus, unit 46 One, Cls isDigit Plus, Cls isWhiteSpace Plus,
                Cls isAnyChar Plus]],
      (\<lambda>l. 5 \<le> length l \<and> length l \<le> 50 \<and> list_all (\<lambda>c. isUpper c \<or> isWhiteSpace c) l),
      rx_test [[InputStart, Cls isUpper One, Cls isLower One, Cls isAnyChar Star,
                Cls (\<lambda>c. \<not> isTerminator c) One, InputEnd]],
      rx_test (map (\<lambda>w. InputStart # lit_i (asc w) @ [Cls isWhiteSpace Plus, Cls isDigit Plus])
                 [''Chapter'', ''Section'', ''Part'']),
      rx_test (map (\<lambda>w. InputStart # lit_i (asc w))
                 [''Abstract'', ''Introduction'', ''Methodology'', ''Results'', ''Discussion'',
                  ''Conclusion'', ''References'', ''Appendix''])]"

definition isHeading :: "jsstring \<Rightarrow> bool" where
  "isHeading line =
     (if length line = 0 \<or> length line > 200 then False
      else list_ex (\<lambda>pattern. pattern (trim line)) headingPatterns)"

definition cleanHeading :: "jsstring \<Rightarrow> jsstring" where
  "cleanHeading heading =
     trim (rx_replace_first
             (map (\<lambda>w. InputStart # lit_i (asc w) @
                        [Cls isWhiteSpace Plus, Cls isDigit Plus, unit 58 Opt, Cls isWhiteSpace Star])
                [''Chapter'', ''Section'', ''Part''])
             (\<lambda>segs. [])
             (rx_replace_first [[InputStart, Cls isDigit Plus, unit 46 Opt, Cls isWhiteSpace Star]]
                (\<lambda>segs. []) heading))"

text \<open>
  The loop of \<open>extractDocumentStructure\<close> over the lines. The state is the list of closed
  sections, the open section (title, content, start) if there is one, and \<open>lineIndex\<close>.
\<close>

fun structureLines ::
  "jsstring list \<Rightarrow> DocSection list \<times> (jsstring \<times> jsstring \<times> nat) option \<times> nat
     \<Rightarrow> DocSection list \<times> (jsstring \<times> jsstring \<times> nat) option \<times> nat"
where
  "structureLines [] st = st"
| "structureLines (rawLine # rest) (secs, currentSection, lineIndex0) =
     (let line = trim rawLine;
          lineIndex = lineIndex0 + length rawLine + 1
      in if isHeading line \<and> length line > 0
         then structureLines rest
                ((case currentSection of
                    None \<Rightarrow> secs
                  | Some (t, c, s) \<Rightarrow>
                      secs @ [\<lparr>secTitle = t, secContent = c, startIndex = s,
                               endIndex = lineIndex - length rawLine - 1\<rparr>]),
                 Some (cleanHeading line, [], lineIndex - length rawLine - 1),
                 lineIndex)
         else (case currentSection of
                 Some (t, c, s) \<Rightarrow>
                   if length line > 0
                   then structureLines rest
                          (secs, Some (t, c @ (if c \<noteq> [] then [10] else []) @ line, s), lineIndex)
                   else structureLines rest (secs, currentSection, lineIndex)
               | None \<Rightarrow> structureLines rest (secs, currentSection, lineIndex)))"

definition extractDocumentStructure :: "jsstring \<Rightarrow> DocSection list" where
  "extractDocumentStructure t =
     (case structureLines (splitUnit 10 [] t) ([], None, 0) of
        (secs, currentSection, lineIndex) \<Rightarrow>
          (case currentSection of
             None \<Rightarrow> secs
           | Some (ti, c, s) \<Rightarrow>
               secs @ [\<lparr>secTitle = ti, secContent = c, startIndex = s, endIndex = length t\<rparr>]))"

text \<open>
  \<open>calculateTextQuality\<close> of the text processor. Numbers are real numbers here, so the
  sums of the decimal constants are exact where the host rounds to a double. The class of
  the artifact count is \<^verbatim>\<open>[^\w\s.,!?;:'"()\-...]\<close> with the four further code units of
  the source file.
\<close>

definition isArtifact :: "nat \<Rightarrow> bool" where
  "isArtifact c =
     (\<not> (isWordChar c \<or> isWhiteSpace c \<or> c = 46 \<or> c = 44 \<or> c = 33 \<or> c = 63 \<or> c = 59
         \<or> c = 58 \<or> c = 39 \<or> c = 34 \<or> c = 40 \<or> c = 41 \<or> c = 45
         \<or> c = 1074 \<or> c = 1026 \<or> c = 8220 \<or> c = 8221))"

definition tp_calculateTextQuality :: "jsstring \<Rightarrow> nat \<Rightarrow> real" where
  "tp_calculateTextQuality t origLength =
     (let lengthRatio = real (length t) / real (max origLength 1);
          s1 = 0.5 + (if lengthRatio > 0.9 then 0.1 else if lengthRatio > 0.8 then 0.05 else 0);
          uniqueChars = length (remdups (toLowerCase t));
          s2 = s1 + (if uniqueChars > 20 then 0.1 else 0);
          wordCount = length (filter (\<lambda>w. length w > 0) (splitOn isWhiteSpace t));
          s3 = s2 + (if wordCount > 100 then 0.1 else 0) + (if wordCount > 500 then 0.1 else 0);
          sentences = filter (\<lambda>s. length (trim s) > 10) (splitOn isTerminator t);
          s4 = s3 + (if length sentences > 5 then 0.05 else 0)
                  + (if length sentences > 20 then 0.05 else 0);
          artifactCount = length (filter isArtifact t);
          artifactRatio = real artifactCount / real (max (length t) 1);
          s5 = s4 + (if artifactRatio < 0.01 then 0.1 else if artifactRatio > 0.05 then - 0.1 else 0);
          spacingIssues = length (rx_match_all
             [[Cls isWhiteSpace One, Cls isWhiteSpace One, Cls isWhiteSpace Plus],
              [Cls isLower One, Cls isUpper One],
              [Cls isWordChar One, Cls isTerminator One, Cls isLower One]] t);
          s6 = s5 + (if real spacingIssues < real (length t) * 0.001 then 0.1 else 0)
      in max 0 (min 1 s6))"

text \<open>
  The stages that the body of \<open>processText\<close> calls inside its \<open>try\<close>. Each of them may
  throw as far as \<open>processText\<close> can tell, so the body is written over any family of
  stages; \<open>hostStages\<close> is the family of the functions above, none of which throws.
\<close>

record Stages =
  st_fixEncodingIssues :: "jsstring \<Rightarrow> js_error + jsstring"
  st_correctOCRErrors :: "jsstring \<Rightarrow> js_error + jsstring"
  st_normalizeWhitespace :: "jsstring \<Rightarrow> js_error + jsstring"
  st_standardizeFormatting :: "jsstring \<Rightarrow> js_error + jsstring"
  st_expandAcronyms :: "jsstring \<Rightarrow> js_error + jsstring"
  st_extractDocumentStructure :: "jsstring \<Rightarrow> js_error + DocSection list"
  st_calculateTextQuality :: "jsstring \<Rightarrow> nat \<Rightarrow> js_error + real"

definition hostStages :: "(jsstring \<Rightarrow> jsstring) \<Rightarrow> Stages" where
  "hostStages nfkc =
     \<lparr>st_fixEncodingIssues = (\<lambda>t. Inr (fixEncodingIssues nfkc t)),
      st_correctOCRErrors = (\<lambda>t. Inr (correctOCRErrors t)),
      st_normalizeWhitespace = (\<lambda>t. Inr (normalizeWhitespace t)),
      st_standardizeFormatting = (\<lambda>t. Inr (standardizeFormatting t)),
      st_expandAcronyms = (\<lambda>t. Inr (expandAcronyms t)),
      st_extractDocumentStructure = (\<lambda>t. Inr (extractDocumentStructure t)),
      st_calculateTextQuality = (\<lambda>t n. Inr (tp_calculateTextQuality t n))\<rparr>"

text \<open>
  Steps 1 to 5 of the body have one shape: if the option is set, run the stage on
  \<open>processedText\<close> and note the improvement when the text changed (step 1 compares the
  lengths, the others the texts). A step is the option, the stage, the comparison and
  the note.
\<close>

type_synonym step = "bool \<times> (jsstring \<Rightarrow> js_error + jsstring) \<times> (jsstring \<Rightarrow> jsstring \<Rightarrow> bool) \<times> jsstring"

fun runSteps :: "step list \<Rightarrow> jsstring \<times> jsstring list \<Rightarrow> js_error + (jsstring \<times> jsstring list)" where
  "runSteps [] st = Inr st"
| "runSteps ((enabled, stage, changed, note) # steps) (processedText, improvements) =
     (if enabled
      then bindE (stage processedText)
             (\<lambda>after. runSteps steps
                (after, if changed processedText after then improvements @ [note] else improvements))
      else runSteps steps (processedText, improvements))"

definition processSteps :: "Stages \<Rightarrow> TextProcessingOptions \<Rightarrow> step list" where
  "processSteps S options =
     [(flag True (opt_fixEncoding options), st_fixEncodingIssues S,
       (\<lambda>before after. length after \<noteq> length before), asc ''Fixed text encoding issues''),
      (flag True (opt_removeOCRErrors options), st_correctOCRErrors S,
       (\<lambda>before after. before \<noteq> after), asc ''Corrected OCR recognition errors''),
      (flag True (opt_normalizeWhitespace options), st_normalizeWhitespace S,
       (\<lambda>before after. before \<noteq> after), asc ''Normalized whitespace and line breaks''),
      (flag True (opt_standardizeFormatting options), st_standardizeFormatting S,
       (\<lambda>before after. before \<noteq> after), asc ''Standardized text formatting''),
      (flag False (opt_expandAcronyms options), st_expandAcronyms S,
       (\<lambda>before after. before \<noteq> after), asc ''Expanded common acronyms'')]"

text \<open>The body of the \<open>try\<close> block of \<open>processText\<close>.\<close>

definition processBody :: "Stages \<Rightarrow> jsstring \<Rightarrow> TextProcessingOptions \<Rightarrow> js_error + ProcessedTextResult" where
  "processBody S t options =
     bindE (runSteps (processSteps S options) (t, []))
       (\<lambda>(processedText, improvements).
          bindE (if flag True (opt_preserveStructure options)
                 then bindE (st_extractDocumentStructure S processedText)
                        (\<lambda>secs. Inr (Some secs,
                                     if length secs > 0
                                     then improvements @ [asc ''Identified document structure'']
                                     else improvements))
                 else Inr (None, improvements))
            (\<lambda>(secs, improvements2).
               bindE (st_calculateTextQuality S processedText (length t))
                 (\<lambda>quality.
                    Inr \<lparr>cleanedText = processedText, originalLength = length t,
                         processedLength = length processedText,
                         improvementsApplied = improvements2, qualityScore = quality,
                         sections = secs\<rparr>)))"

text \<open>What the \<open>catch\<close> block of \<open>processText\<close> returns.\<close>

definition processFallback :: "jsstring \<Rightarrow> ProcessedTextResult" where
  "processFallback t =
     \<lparr>cleanedText = t, originalLength = length t, processedLength = length t,
      improvementsApplied = [asc ''Error occurred during processing''], qualityScore = 0.5,
      sections = Some []\<rparr>"

definition processTextWith :: "Stages \<Rightarrow> jsstring \<Rightarrow> TextProcessingOptions \<Rightarrow> js_error + ProcessedTextResult" where
  "processTextWith S t options = tryCatch (processBody S t options) (\<lambda>e. Inr (processFallback t))"

definition processText :: "(jsstring \<Rightarrow> jsstring) \<Rightarrow> jsstring \<Rightarrow> TextProcessingOptions \<Rightarrow> js_error + ProcessedTextResult" where
  "processText nfkc t options = processTextWith (hostStages nfkc) t options"

definition noOptions :: TextProcessingOptions where
  "noOptions = \<lparr>opt_removeOCRErrors = None, opt_standardizeFormatting = None,
                 opt_fixEncoding = None, opt_normalizeWhitespace = None,
                 opt_preserveStructure = None, opt_expandAcronyms = None\<rparr>"

definition quickClean :: "(jsstring \<Rightarrow> jsstring) \<Rightarrow> jsstring \<Rightarrow> js_error + jsstring" where
  "quickClean nfkc t =
     bindE (processText nfkc t
              \<lparr>opt_removeOCRErrors = Some True, opt_standardizeFormatting = Some True,
               opt_fixEncoding = Some True, opt_normalizeWhitespace = Some True,
               opt_preserveStructure = Some False, opt_expandAcronyms = Some False\<rparr>)
       (\<lambda>r. Inr (cleanedText r))"

definition academicClean :: "(jsstring \<Rightarrow> jsstring) \<Rightarrow> jsstring \<Rightarrow> js_error + ProcessedTextResult" where
  "academicClean nfkc t =
     processText nfkc t
       \<lparr>opt_removeOCRErrors = Some True, opt_standardizeFormatting = Some True,
        opt_fixEncoding = Some True, opt_normalizeWhitespace = Some True,
        opt_preserveStructure = Some True, opt_expandAcronyms = Some True\<rparr>"

text \<open>\<open>prepareForQA\<close> returns the cleaned text, the sections and the improvements.\<close>

definition prepareForQA ::
  "(jsstring \<Rightarrow> jsstring) \<Rightarrow> jsstring \<Rightarrow> js_error + (jsstring \<times> DocSection list \<times> jsstring list)" where
  "prepareForQA nfkc t =
     bindE (processText nfkc t
              \<lparr>opt_removeOCRErrors = Some True, opt_standardizeFormatting = Some True,
               opt_fixEncoding = Some True, opt_normalizeWhitespace = Some True,
               opt_preserveStructure = Some True, opt_expandAcronyms = Some False\<rparr>)
       (\<lambda>r. Inr (cleanedText r, (case sections r of None \<Rightarrow> [] | Some secs \<Rightarrow> secs),
                  improvementsApplied r))"

section \<open>The PDF processor: chunking\<close>

record ExtractedPage =
  page :: nat
  pageText :: jsstring

record TextChunk =
  content :: jsstring
  chunkPage :: nat
  chunkIndex :: nat
  chunkKeywords :: "jsstring list"

text \<open>
  \<open>extractKeywords\<close>: lower-case, split at white space, keep the words longer than three
  code units that are not all digits (\<open>/^\d+$/\<close>), and of those the first twenty.
\<close>

definition extractKeywords :: "jsstring \<Rightarrow> jsstring list" where
  "extractKeywords t =
     take 20 (filter (\<lambda>w. \<not> (w \<noteq> [] \<and> list_all isDigit w))
               (filter (\<lambda>w. length w > 3) (splitOn isWhiteSpace (toLowerCase t))))"

text \<open>
  The inner loop of \<open>createTextChunks\<close> over the sentences of one page. The state is the
  list of chunks pushed so far, the next \<open>chunkIndex\<close> and the buffer \<open>currentChunk\<close>.
\<close>

fun chunkSentences ::
  "nat \<Rightarrow> nat \<Rightarrow> jsstring list \<Rightarrow> TextChunk list \<times> nat \<times> jsstring \<Rightarrow> TextChunk list \<times> nat \<times> jsstring"
where
  "chunkSentences maxChunkSize pg [] st = st"
| "chunkSentences maxChunkSize pg (sentence # rest) (chunks, idx, currentChunk) =
     (let trimmedSentence = trim sentence in
      if length trimmedSentence = 0 then chunkSentences maxChunkSize pg rest (chunks, idx, currentChunk)
      else if length currentChunk + length trimmedSentence > maxChunkSize \<and> length currentChunk > 0
      then chunkSentences maxChunkSize pg rest
             (chunks @ [\<lparr>content = trim currentChunk, chunkPage = pg, chunkIndex = idx,
                         chunkKeywords = extractKeywords currentChunk\<rparr>],
              idx + 1, trimmedSentence @ asc ''. '')
      else chunkSentences maxChunkSize pg rest
             (chunks, idx, currentChunk @ trimmedSentence @ asc ''. ''))"

text \<open>One page: skip an empty text, run the sentences, push what remains in the buffer.\<close>

definition chunkPageText :: "nat \<Rightarrow> TextChunk list \<times> nat \<Rightarrow> ExtractedPage \<Rightarrow> TextChunk list \<times> nat" where
  "chunkPageText maxChunkSize st pg =
     (if length (pageText pg) = 0 then st
      else
        let sentences = filter (\<lambda>s. length (trim s) > 0) (splitOn isTerminator (pageText pg));
            (chunks, idx, currentChunk) =
               chunkSentences maxChunkSize (page pg) sentences (fst st, snd st, [])
        in if length (trim currentChunk) > 0
           then (chunks @ [\<lparr>content = trim currentChunk, chunkPage = page pg, chunkIndex = idx,
                             chunkKeywords = extractKeywords currentChunk\<rparr>], idx + 1)
           else (chunks, idx))"

definition createTextChunks :: "ExtractedPage list \<Rightarrow> nat \<Rightarrow> TextChunk list" where
  "createTextChunks pages maxChunkSize = fst (foldl (chunkPageText maxChunkSize) ([], 0) pages)"

section \<open>Documents and search results\<close>

text \<open>
  The status of a document is one of \<open>'processing'\<close>, \<open>'ready'\<close> and \<open>'error'\<close>.
  Times are milliseconds since the epoch, numbers are real numbers.
\<close>

datatype DocStatus = Processing | Ready | Failed

record ProcessedDocument =
  docId :: jsstring
  docName :: jsstring
  docSize :: nat
  uploadedAt :: int
  status :: DocStatus
  pageCount :: nat
  pages :: "ExtractedPage list"
  chunks :: "TextChunk list"
  fullText :: jsstring
  cleanedFullText :: "jsstring option"
  processingQuality :: "real option"
  textImprovements :: "jsstring list option"

record SearchResult =
  chunk :: TextChunk
  score :: real
  document :: ProcessedDocument

text \<open>
  \<open>array.sort(cmp)\<close>: a stable sort under the comparator, which puts \<open>a\<close> before \<open>b\<close>
  when \<open>cmp(a, b)\<close> is negative and keeps the order of the two when it is zero.
\<close>

fun insertBy :: "('a \<Rightarrow> 'a \<Rightarrow> real) \<Rightarrow> 'a \<Rightarrow> 'a list \<Rightarrow> 'a list" where
  "insertBy cmp x [] = [x]"
| "insertBy cmp x (y # ys) = (if cmp x y \<le> 0 then x # y # ys else y # insertBy cmp x ys)"

definition sortBy :: "('a \<Rightarrow> 'a \<Rightarrow> real) \<Rightarrow> 'a list \<Rightarrow> 'a list" where
  "sortBy cmp xs = foldr (insertBy cmp) xs []"

fun joinWith :: "jsstring \<Rightarrow> jsstring list \<Rightarrow> jsstring" where
  "joinWith sep [] = []"
| "joinWith sep [x] = x"
| "joinWith sep (x # y # ys) = x @ sep @ joinWith sep (y # ys)"

text \<open>A number in a template literal, for the natural numbers: its decimal digits.\<close>

function decimal :: "nat \<Rightarrow> jsstring" where
  "decimal n = (if n < 10 then [48 + n] else decimal (n div 10) @ [48 + n mod 10])"
  by pat_completeness auto
termination
  by (relation "measure (\<lambda>n. n)") auto

text \<open>\<open>[...new Set(xs)]\<close>: the first occurrence of every element, in order.\<close>

definition uniqueInOrder :: "'a list \<Rightarrow> 'a list" where
  "uniqueInOrder xs = rev (remdups (rev xs))"

section \<open>Enhanced question answering\<close>

record EnhancedSource =
  es_document :: jsstring
  es_page :: nat
  es_excerpt :: jsstring
  es_relevanceScore :: real

record EnhancedAnswerResult =
  ea_answer :: jsstring
  ea_confidence :: real
  ea_sources :: "EnhancedSource list"
  ea_suggestedFollowUps :: "jsstring list"

definition stopWords :: "jsstring list" where
  "stopWords = map asc
     [''the'', ''a'', ''an'', ''and'', ''or'', ''but'', ''in'', ''on'', ''at'', ''to'', ''for'', ''of'',
      ''with'', ''by'', ''from'', ''about'', ''what'', ''how'', ''when'', ''where'', ''why'', ''who'',
      ''which'', ''that'', ''this'', ''is'', ''are'', ''was'', ''were'', ''be'', ''been'', ''being'',
      ''have'', ''has'', ''had'', ''do'', ''does'', ''did'', ''will'', ''would'', ''could'', ''should'',
      ''may'', ''might'', ''can'', ''shall'']"

text \<open>
  \<open>extractQueryTerms\<close>: lower-case, every code unit outside \<^verbatim>\<open>[\w\s]\<close> becomes a space,
  split at white space, drop the empty, the short and the stop words, keep ten; the single
  term \<open>query\<close> stands in when nothing is left. Nothing in the body throws, so its
  \<open>catch\<close> never runs.
\<close>

definition extractQueryTerms :: "jsstring \<Rightarrow> jsstring list" where
  "extractQueryTerms query =
     (let terms = take 10
            (filter (\<lambda>w. w \<noteq> [] \<and> length w > 2 \<and> w \<notin> set stopWords)
               (splitOn isWhiteSpace
                  (rx_replace [[Cls (\<lambda>c. \<not> (isWordChar c \<or> isWhiteSpace c)) One]]
                     (\<lambda>segs. asc '' '') (toLowerCase query))))
      in if length terms > 0 then terms else [asc ''query''])"

text \<open>
  The pattern table of \<open>getContextualScore\<close>. Both patterns of a row are alternatives of
  literal texts under the \<open>i\<close> flag.
\<close>

definition contextPatterns :: "(string list \<times> string list \<times> real) list" where
  "contextPatterns =
     [([''what is'', ''define'', ''definition''],
       [''is a'', ''is the'', ''refers to'', ''defined as'', ''means''], 4),
      ([''how does'', ''how to'', ''process'', ''method''],
       [''process'', ''method'', ''approach'', ''technique'', ''procedure'', ''steps''], 4),
      ([''why'', ''reason'', ''because''],
       [''because'', ''reason'', ''due to'', ''since'', ''therefore'', ''purpose''], 4),
      ([''types'', ''kinds'', ''categories''],
       [''types'', ''kinds'', ''categories'', ''include'', ''main'', ''primary''], 4),
      ([''example'', ''application'', ''use''],
       [''example'', ''application'', ''used'', ''practice'', ''industry'', ''case''], 3),
      ([''benefit'', ''advantage'', ''pros''],
       [''benefit'', ''advantage'', ''strength'', ''positive'', ''improved''], 3),
      ([''limitation'', ''disadvantage'', ''problem''],
       [''limitation'', ''disadvantage'', ''problem'', ''issue'', ''challenge''], 3)]"

definition testAny :: "string list \<Rightarrow> jsstring \<Rightarrow> bool" where
  "testAny alternatives s = rx_test (map (\<lambda>a. lit_i (asc a)) alternatives) s"

definition getContextualScore :: "jsstring \<Rightarrow> jsstring \<Rightarrow> real" where
  "getContextualScore query cont =
     sum_list (map (\<lambda>(queryPattern, contentPattern, weight).
                      if testAny queryPattern query \<and> testAny contentPattern cont then weight else 0)
                 contextPatterns)"

text \<open>
  The pattern \<^verbatim>\<open>new RegExp(`\\b${this.escapeRegex(word)}\\b`, 'i')\<close>: the escaped word is
  matched as a literal, between two word boundaries, letters in either case.
\<close>

definition wordRegex :: "jsstring \<Rightarrow> item list list" where
  "wordRegex word = [WordBoundary # lit_i word @ [WordBoundary]]"

text \<open>The contribution of the query word at \<open>index\<close> among \<open>n\<close> words.\<close>

definition wordScore :: "jsstring \<Rightarrow> nat \<Rightarrow> nat \<times> jsstring \<Rightarrow> real" where
  "wordScore cont n iw =
     (case iw of (index, word) \<Rightarrow>
        if str_includes cont word
        then (let positionWeight = 1 + real (n - index) * 0.1
              in 3 * positionWeight
                 + (if rx_test (wordRegex word) cont then 2 * positionWeight else 0))
        else 0)"

definition calculateSemanticScore :: "jsstring list \<Rightarrow> TextChunk \<Rightarrow> ProcessedDocument \<Rightarrow> real" where
  "calculateSemanticScore queryWords ch doc =
     (let cont = toLowerCase (content ch);
          queryPhrase = joinWith (asc '' '') queryWords;
          phraseScore = (if str_includes cont queryPhrase then 10 else 0);
          wordScores = sum_list (map (wordScore cont (length queryWords)) (enumerate 0 queryWords));
          contextScore = getContextualScore (joinWith (asc '' '') queryWords) cont;
          contentWords = length (splitOn isWhiteSpace cont);
          matchingWords = length (filter (\<lambda>word. str_includes cont word) queryWords);
          density = real matchingWords / real (max contentWords 1);
          documentName = toLowerCase (docName doc);
          titleScore = real (length (filter (\<lambda>word. str_includes documentName word) queryWords))
      in phraseScore + wordScores + contextScore + density * 5 + titleScore)"

definition scoreChunks :: "jsstring list \<Rightarrow> ProcessedDocument \<Rightarrow> SearchResult list" where
  "scoreChunks queryWords doc =
     (if status doc \<noteq> Ready then []
      else concat (map (\<lambda>ch. let sc = calculateSemanticScore queryWords ch doc
                              in if sc > 0 then [\<lparr>chunk = ch, score = sc, document = doc\<rparr>] else [])
                     (chunks doc)))"

definition performSemanticSearch :: "jsstring \<Rightarrow> ProcessedDocument list \<Rightarrow> SearchResult list" where
  "performSemanticSearch query documents =
     (let queryLower = toLowerCase query;
          queryWords = extractQueryTerms queryLower;
          results = concat (map (scoreChunks queryWords) documents)
      in take 8 (sortBy (\<lambda>a b. score b - score a) results))"

definition summaryPoint :: "SearchResult \<Rightarrow> jsstring" where
  "summaryPoint result =
     (case filter (\<lambda>s. length (trim s) > 30) (splitOn isTerminator (content (chunk result))) of
        s # rest \<Rightarrow> trim s
      | [] \<Rightarrow> take 100 (content (chunk result)))"

definition generateSummaryAnswer :: "SearchResult list \<Rightarrow> jsstring" where
  "generateSummaryAnswer results =
     asc ''Based on the document content, here'' @ [39] @ asc ''s a summary:'' @ [10, 10]
     @ concat (map (\<lambda>(index, point). decimal (index + 1) @ asc ''. '' @ point @ [10])
                 (enumerate 0 (map summaryPoint (take 3 results))))"

text \<open>
  The callers below pass a list of at least one result; the source reads \<open>results[0]\<close>
  without a test, which on an empty list is a \<open>TypeError\<close>.
\<close>

definition generateComparisonAnswer :: "SearchResult list \<Rightarrow> js_error + jsstring" where
  "generateComparisonAnswer results =
     (case results of
        r0 # r1 # rest \<Rightarrow>
          Inr (asc ''From the documents:'' @ [10, 10] @ asc ''**First perspective:** ''
               @ content (chunk r0) @ [10, 10] @ asc ''**Another perspective:** ''
               @ content (chunk r1))
      | [r0] \<Rightarrow> Inr (asc ''According to the document: '' @ content (chunk r0))
      | [] \<Rightarrow> Inl TypeError)"

text \<open>
  The list pattern of \<open>generateListAnswer\<close>: a marker (the bullet U+2022, \<open>*\<close>, digits
  and a dot, or \<open>-\<close>) followed by at least one code unit that is neither a bullet nor
  \<open>*\<close> nor a line feed, written as its four alternatives; and the pattern that strips
  from an item one leading bullet, \<open>*\<close>, digit, \<open>+\<close>, \<open>.\<close> or \<open>-\<close> and the white space after it.
\<close>

definition isListText :: "nat \<Rightarrow> bool" where
  "isListText c = (\<not> (c = 8226 \<or> c = 42 \<or> c = 10))"

definition listPattern :: "item list list" where
  "listPattern =
     [[unit 8226 One, Cls isListText Plus],
      [unit 42 One, Cls isListText Plus],
      [Cls isDigit Plus, unit 46 One, Cls isListText Plus],
      [unit 45 One, Cls isListText Plus]]"

definition stripMarker :: "jsstring \<Rightarrow> jsstring" where
  "stripMarker listItem =
     rx_replace_first
       [[InputStart,
         Cls (\<lambda>c. c = 8226 \<or> c = 42 \<or> isDigit c \<or> c = 43 \<or> c = 46 \<or> c = 45) One,
         Cls isWhiteSpace Star]]
       (\<lambda>segs. []) listItem"

definition generateListAnswer :: "SearchResult list \<Rightarrow> js_error + jsstring" where
  "generateListAnswer results =
     (case results of
        [] \<Rightarrow> Inl TypeError
      | r0 # rest \<Rightarrow>
          (let matches = rx_match_all listPattern (content (chunk r0))
           in if length matches > 1
              then Inr (asc ''According to the document:'' @ [10, 10]
                        @ concat (map (\<lambda>listItem. [8226] @ asc '' '' @ trim (stripMarker listItem) @ [10])
                                    matches))
              else Inr (asc ''The document explains: '' @ content (chunk r0))))"

text \<open>
  The loop of \<open>generateContextualAnswer\<close> that looks for the sentence with the most query
  words; a later sentence wins only with strictly more.
\<close>

fun bestSentenceLoop :: "jsstring list \<Rightarrow> jsstring list \<Rightarrow> jsstring \<times> nat \<Rightarrow> jsstring \<times> nat" where
  "bestSentenceLoop queryWords [] st = st"
| "bestSentenceLoop queryWords (sentence # rest) (bestSentence, maxRelevance) =
     (let relevance = length (filter (\<lambda>word. str_includes (toLowerCase sentence) word) queryWords)
      in if relevance > maxRelevance
         then bestSentenceLoop queryWords rest (sentence, relevance)
         else bestSentenceLoop queryWords rest (bestSentence, maxRelevance))"

definition generateContextualAnswer :: "jsstring \<Rightarrow> SearchResult list \<Rightarrow> js_error + jsstring" where
  "generateContextualAnswer query results =
     (case results of
        [] \<Rightarrow> Inl TypeError
      | mainResult # others \<Rightarrow>
          (let cont = content (chunk mainResult);
               documentName = docName (document mainResult);
               sentences = filter (\<lambda>s. length (trim s) > 20) (splitOn isTerminator cont);
               queryWords = extractQueryTerms (toLowerCase query);
               bestSentence0 = (case sentences of s # rest \<Rightarrow> s | [] \<Rightarrow> take 200 cont);
               bestSentence = fst (bestSentenceLoop queryWords sentences (bestSentence0, 0));
               answer = asc ''According to **'' @ documentName @ asc ''**:'' @ [10, 10]
                        @ trim bestSentence @ asc ''.''
           in Inr (case others of
                     second # rest \<Rightarrow>
                       if score second > score mainResult * 0.7
                       then (let supportingSentence =
                                   (case splitOn isTerminator (content (chunk second)) of
                                      s # pieces \<Rightarrow> s | [] \<Rightarrow> [])
                             in if supportingSentence \<noteq> [] \<and> length (trim supportingSentence) > 20
                                then answer @ [10, 10] @ asc ''Additionally: ''
                                     @ trim supportingSentence @ asc ''.''
                                else answer)
                       else answer
                   | [] \<Rightarrow> answer)))"

definition generateIntelligentAnswer :: "jsstring \<Rightarrow> SearchResult list \<Rightarrow> js_error + jsstring" where
  "generateIntelligentAnswer query results =
     (if length results = 0 then Inr (asc ''No relevant information found.'')
      else
        let queryLower = toLowerCase query;
            topResults = take 3 results
        in if str_includes queryLower (asc ''summary'') \<or> str_includes queryLower (asc ''overview'')
           then Inr (generateSummaryAnswer topResults)
           else if str_includes queryLower (asc ''compare'') \<or> str_includes queryLower (asc ''difference'')
           then generateComparisonAnswer topResults
           else if str_includes queryLower (asc ''list'') \<or> str_includes queryLower (asc ''types'')
                   \<or> str_includes queryLower (asc ''kinds'')
           then generateListAnswer topResults
           else generateContextualAnswer query topResults)"

definition calculateConfidence :: "jsstring \<Rightarrow> SearchResult list \<Rightarrow> real" where
  "calculateConfidence query results =
     (case results of
        [] \<Rightarrow> 0
      | topResult # others \<Rightarrow>
          (let topScore = score topResult;
               queryWords = extractQueryTerms (toLowerCase query);
               base = min (topScore / 10) 1;
               withSecond = base + (case others of
                                      second # rest \<Rightarrow> if score second > topScore * 0.8 then 0.1 else 0
                                    | [] \<Rightarrow> 0);
               topContent = toLowerCase (content (chunk topResult));
               coverage = real (length (filter (\<lambda>word. str_includes topContent word) queryWords))
                          / real (length queryWords)
           in min (withSecond + coverage * 0.2) 1))"

text \<open>\<open>Math.round(x)\<close> is the integer nearest to \<open>x\<close>, a half rounded up.\<close>

definition mathRound :: "real \<Rightarrow> real" where
  "mathRound x = real_of_int \<lfloor>x + 1 / 2\<rfloor>"

definition formatSources :: "SearchResult list \<Rightarrow> EnhancedSource list" where
  "formatSources results =
     map (\<lambda>result.
            \<lparr>es_document = docName (document result),
             es_page = chunkPage (chunk result),
             es_excerpt = (if length (content (chunk result)) > 150
                           then take 150 (content (chunk result)) @ asc ''...''
                           else content (chunk result)),
             es_relevanceScore = mathRound (score result * 10) / 10\<rparr>)
         (take 3 results)"

text \<open>\<open>words.slice(-2)\<close> is the last two words.\<close>

definition extractMainTopic :: "jsstring \<Rightarrow> jsstring" where
  "extractMainTopic query =
     (let ws = extractQueryTerms query;
          topic = joinWith (asc '' '') (drop (length ws - 2) ws)
      in if topic \<noteq> [] then topic else asc ''this topic'')"

definition generateContextualFollowUps :: "jsstring \<Rightarrow> SearchResult list \<Rightarrow> jsstring list" where
  "generateContextualFollowUps query results =
     (let queryLower = toLowerCase query;
          fromTop =
            (case results of
               [] \<Rightarrow> []
             | topResult # rest \<Rightarrow>
                 (let cont = toLowerCase (content (chunk topResult))
                  in (if str_includes queryLower (asc ''what is'')
                      then [asc ''How does '' @ extractMainTopic query @ asc '' work?'',
                            asc ''What are the applications of '' @ extractMainTopic query @ asc ''?'']
                      else if str_includes queryLower (asc ''how'')
                      then [asc ''What are the benefits of this approach?'',
                            asc ''What challenges might arise?'']
                      else if str_includes queryLower (asc ''why'')
                      then [asc ''What are the implications of this?'',
                            asc ''How does this compare to alternatives?'']
                      else [])
                     @ (if str_includes cont (asc ''method'') \<or> str_includes cont (asc ''approach'')
                        then [asc ''What are the steps involved in this method?''] else [])
                     @ (if str_includes cont (asc ''result'') \<or> str_includes cont (asc ''finding'')
                        then [asc ''What were the key findings?'',
                              asc ''How significant are these results?''] else [])
                     @ (if str_includes cont (asc ''application'') \<or> str_includes cont (asc ''use'')
                        then [asc ''What are some real-world examples?''] else [])));
          followUps = fromTop @ [asc ''Can you provide more details about this topic?'',
                                 asc ''What else should I know about this subject?'']
      in take 4 (uniqueInOrder followUps))"

definition generateGenericFollowUps :: "ProcessedDocument list \<Rightarrow> jsstring list" where
  "generateGenericFollowUps documents =
     [asc ''What are the main topics covered in my documents?'',
      asc ''Can you summarize the key points?'',
      asc ''What type of document did I upload?'',
      asc ''What questions can I ask about this content?'']"

text \<open>The two messages of \<open>generateNoResultsAnswer\<close>.\<close>

definition noProcessedDocumentsMessage :: jsstring where
  "noProcessedDocumentsMessage =
     asc ''I don'' @ [39] @ asc ''t have any processed documents to search through yet. Please upload and wait for documents to be processed.''"

definition couldNotFindMessage :: "jsstring \<Rightarrow> jsstring" where
  "couldNotFindMessage query =
     asc ''I couldn'' @ [39] @ asc ''t find specific information about '' @ [34] @ query @ [34]
     @ asc '' in your uploaded documents. This might be because:'' @ [10, 10]
     @ [8226] @ asc '' The content doesn'' @ [39] @ asc ''t directly address this topic'' @ [10]
     @ [8226] @ asc '' Different terminology is used in the documents'' @ [10]
     @ [8226] @ asc '' The information might be in a section I haven'' @ [39] @ asc ''t indexed yet''
     @ [10, 10]
     @ asc ''Try rephrasing your question with different keywords, or ask me about the main topics covered in your documents.''"

definition generateNoResultsAnswer :: "jsstring \<Rightarrow> ProcessedDocument list \<Rightarrow> jsstring" where
  "generateNoResultsAnswer query documents =
     (let readyDocs = filter (\<lambda>doc. status doc = Ready) documents
      in if length readyDocs = 0 then noProcessedDocumentsMessage
         else couldNotFindMessage query)"

text \<open>\<open>EnhancedQuestionAnswering.generateAnswer\<close>.\<close>

definition eqa_generateAnswer :: "jsstring \<Rightarrow> ProcessedDocument list \<Rightarrow> js_error + EnhancedAnswerResult" where
  "eqa_generateAnswer query documents =
     (let searchResults = performSemanticSearch query documents
      in if length searchResults = 0
         then Inr \<lparr>ea_answer = generateNoResultsAnswer query documents,
                   ea_confidence = 0,
                   ea_sources = [],
                   ea_suggestedFollowUps = generateGenericFollowUps documents\<rparr>
         else bindE (generateIntelligentAnswer query searchResults)
                (\<lambda>answer.
                   Inr \<lparr>ea_answer = answer,
                        ea_confidence = calculateConfidence query searchResults,
                        ea_sources = formatSources searchResults,
                        ea_suggestedFollowUps = generateContextualFollowUps query searchResults\<rparr>))"

section \<open>The PDF processor: processing a file\<close>

text \<open>
  \<open>calculateTextQuality\<close> of the PDF processor; the class of its special-character count
  is \<^verbatim>\<open>[^\w\s.,!?;:'"()\-]\<close> with the dashes U+2013 and U+2014 allowed as well.
\<close>

definition isSpecialChar :: "nat \<Rightarrow> bool" where
  "isSpecialChar c =
     (\<not> (isWordChar c \<or> isWhiteSpace c \<or> c = 46 \<or> c = 44 \<or> c = 33 \<or> c = 63 \<or> c = 59
         \<or> c = 58 \<or> c = 39 \<or> c = 34 \<or> c = 40 \<or> c = 41 \<or> c = 45 \<or> c = 8211 \<or> c = 8212))"

definition academicTerms :: "jsstring list" where
  "academicTerms = map asc
     [''research'', ''analysis'', ''methodology'', ''results'', ''conclusion'', ''study'',
      ''findings'', ''evidence'']"

definition pdf_calculateTextQuality :: "jsstring \<Rightarrow> real" where
  "pdf_calculateTextQuality t =
     (let wordCount = length (filter (\<lambda>w. length w > 0) (splitOn isWhiteSpace t));
          s1 = 0.5 + (if wordCount > 100 then 0.1 else 0) + (if wordCount > 500 then 0.1 else 0)
                   + (if wordCount > 1000 then 0.1 else 0);
          sentences = filter (\<lambda>s. length (trim s) > 10) (splitOn isTerminator t);
          avgSentenceLength = (if length sentences > 0
                               then real wordCount / real (length sentences) else 0);
          s2 = s1 + (if avgSentenceLength > 8 \<and> avgSentenceLength < 30 then 0.1 else 0);
          uniqueChars = length (remdups (toLowerCase t));
          s3 = s2 + (if uniqueChars > 20 then 0.1 else 0);
          specialChars = length (filter isSpecialChar t);
          specialCharRatio = real specialChars / real (max (length t) 1);
          s4 = s3 + (if specialCharRatio < 0.01 then 0.1
                     else if specialCharRatio > 0.05 then - 0.1 else 0);
          academicMatches = length (filter (\<lambda>term. str_includes (toLowerCase t) term) academicTerms);
          s5 = s4 + (if academicMatches > 2 then 0.1 else 0)
      in max 0 (min 1 s5))"

text \<open>
  What \<open>extractTextWithFallback\<close> resolves to, and the part of a \<open>File\<close> that
  \<open>processFile\<close> reads.
\<close>

record ExtractedTextData =
  ex_fullText :: jsstring
  ex_pages :: "ExtractedPage list"
  ex_pageCount :: nat

record FileInfo =
  fileName :: jsstring
  fileSize :: nat

text \<open>
  The \<open>Map\<close> of documents, in insertion order: \<open>set\<close> on a key that is present replaces
  the value where it stands, on a new key it appends.
\<close>

type_synonym DocumentMap = "(jsstring \<times> ProcessedDocument) list"

fun mapSet :: "jsstring \<Rightarrow> ProcessedDocument \<Rightarrow> DocumentMap \<Rightarrow> DocumentMap" where
  "mapSet k v [] = [(k, v)]"
| "mapSet k v ((k', v') # m) = (if k' = k then (k, v) # m else (k', v') # mapSet k v m)"

definition getDocument :: "DocumentMap \<Rightarrow> jsstring \<Rightarrow> ProcessedDocument option" where
  "getDocument m k = map_of m k"

definition getAllDocuments :: "DocumentMap \<Rightarrow> ProcessedDocument list" where
  "getAllDocuments m = map snd m"

text \<open>One element of \<open>pages.map(...)\<close>; the first page whose cleaning throws ends the map.\<close>

fun cleanPages :: "(jsstring \<Rightarrow> jsstring) \<Rightarrow> ExtractedPage list \<Rightarrow> js_error + ExtractedPage list" where
  "cleanPages nfkc [] = Inr []"
| "cleanPages nfkc (pg # rest) =
     bindE (quickClean nfkc (pageText pg))
       (\<lambda>cleaned. bindE (cleanPages nfkc rest)
          (\<lambda>cleanedRest. Inr (pg\<lparr>pageText := cleaned\<rparr> # cleanedRest)))"

text \<open>
  \<open>processFile\<close>. The random identifier, the clock, the outcome of the awaited
  \<open>extractTextWithFallback(file)\<close> (a value, or the exception it rejects with) and the
  message text of an exception are given; the function returns the new map with what
  the source returns or throws. The body of the \<open>try\<close> comes first.
\<close>

definition processFileBody ::
  "(jsstring \<Rightarrow> jsstring) \<Rightarrow> ProcessedDocument \<Rightarrow> js_error + ExtractedTextData \<Rightarrow> js_error + ProcessedDocument" where
  "processFileBody nfkc doc extracted =
     bindE extracted
       (\<lambda>extractedData.
          bindE (prepareForQA nfkc (ex_fullText extractedData))
            (\<lambda>(cleaned, secs, improvements).
               bindE (cleanPages nfkc (ex_pages extractedData))
                 (\<lambda>cleanedPages.
                    Inr (doc\<lparr>status := Ready,
                             pageCount := ex_pageCount extractedData,
                             pages := cleanedPages,
                             chunks := createTextChunks cleanedPages 500,
                             fullText := ex_fullText extractedData,
                             cleanedFullText := Some cleaned,
                             processingQuality := Some (pdf_calculateTextQuality cleaned),
                             textImprovements := Some improvements\<rparr>))))"

definition processFile ::
  "(jsstring \<Rightarrow> jsstring) \<Rightarrow> (js_error \<Rightarrow> jsstring) \<Rightarrow> jsstring \<Rightarrow> int \<Rightarrow> js_error + ExtractedTextData
     \<Rightarrow> FileInfo \<Rightarrow> DocumentMap \<Rightarrow> DocumentMap \<times> (js_error + jsstring \<times> ProcessedDocument)" where
  "processFile nfkc message newId now extracted file documents =
     (let doc = \<lparr>docId = newId, docName = fileName file, docSize = fileSize file,
                 uploadedAt = now, status = Processing, pageCount = 0, pages = [], chunks = [],
                 fullText = [], cleanedFullText = None, processingQuality = None,
                 textImprovements = None\<rparr>;
          documents1 = mapSet newId doc documents
      in case processFileBody nfkc doc extracted of
           Inr processedDocument \<Rightarrow>
             (mapSet newId processedDocument documents1, Inr (newId, processedDocument))
         | Inl e \<Rightarrow>
             (mapSet newId (doc\<lparr>status := Failed\<rparr>) documents1,
              Inl (Error (asc ''Failed to process PDF: '' @ message e))))"

section \<open>The PDF processor: the fallback search and the answer\<close>

text \<open>
  The synonym table of \<open>expandSearchTerms\<close> is an object literal, and \<open>synonyms[word]\<close>
  also finds what every object inherits. For an own key the entry is spread into the
  result; for an inherited one the value is a function or an object, which is truthy
  and cannot be spread, a \<open>TypeError\<close>.
\<close>

definition synonyms :: "(jsstring \<times> jsstring list) list" where
  "synonyms = map (\<lambda>(k, vs). (asc k, map asc vs))
     [(''machine'', [''ml'', ''artificial'', ''automated'']),
      (''learning'', [''training'', ''education'', ''study'']),
      (''data'', [''information'', ''dataset'', ''statistics'']),
      (''analysis'', [''analytics'', ''examination'', ''evaluation'']),
      (''research'', [''study'', ''investigation'', ''academic'']),
      (''method'', [''approach'', ''technique'', ''procedure'']),
      (''process'', [''procedure'', ''steps'', ''workflow'']),
      (''application'', [''use'', ''usage'', ''implementation'']),
      (''type'', [''kind'', ''category'', ''classification'']),
      (''algorithm'', [''method'', ''technique'', ''approach''])]"

definition objectPrototypeKeys :: "jsstring list" where
  "objectPrototypeKeys = map asc
     [''constructor'', ''__proto__'', ''hasOwnProperty'', ''isPrototypeOf'',
      ''propertyIsEnumerable'', ''toLocaleString'', ''toString'', ''valueOf'',
      ''__defineGetter__'', ''__defineSetter__'', ''__lookupGetter__'', ''__lookupSetter__'']"

fun expandSearchTerms :: "jsstring list \<Rightarrow> js_error + jsstring list" where
  "expandSearchTerms [] = Inr []"
| "expandSearchTerms (word # rest) =
     (case map_of synonyms word of
        Some entry \<Rightarrow> bindE (expandSearchTerms rest) (\<lambda>expanded. Inr (entry @ expanded))
      | None \<Rightarrow>
          if word \<in> set objectPrototypeKeys then Inl TypeError
          else expandSearchTerms rest)"

definition pdf_getContextualScore :: "jsstring \<Rightarrow> jsstring \<Rightarrow> real" where
  "pdf_getContextualScore query cont =
     (let has = (\<lambda>s w. str_includes s (asc w)) in
      (if (has query ''what is'' \<or> has query ''define'')
          \<and> (rx_test [lit (asc ''is a''), lit (asc ''is an''), lit (asc ''is the'')] cont
             \<or> has cont ''definition'' \<or> has cont ''refers to'')
       then 3 else 0)
      + (if (has query ''how'' \<or> has query ''process'' \<or> has query ''method'')
            \<and> (has cont ''process'' \<or> has cont ''method'' \<or> has cont ''approach''
               \<or> has cont ''technique'' \<or> has cont ''procedure'')
         then 3 else 0)
      + (if (has query ''why'' \<or> has query ''reason'')
            \<and> (has cont ''because'' \<or> has cont ''reason'' \<or> has cont ''due to''
               \<or> has cont ''purpose'' \<or> has cont ''since'')
         then 3 else 0)
      + (if (has query ''type'' \<or> has query ''kind'' \<or> has query ''category'')
            \<and> (has cont ''type'' \<or> has cont ''kind'' \<or> has cont ''category''
               \<or> has cont ''include''
               \<or> rx_test [lit (asc ''main''), lit (asc ''primary''), lit (asc ''key'')] cont)
         then 3 else 0)
      + (if (has query ''application'' \<or> has query ''example'' \<or> has query ''use'')
            \<and> (has cont ''application'' \<or> has cont ''used'' \<or> has cont ''example''
               \<or> has cont ''industry'' \<or> has cont ''practice'')
         then 3 else 0))"

text \<open>
  The fallback search builds \<^verbatim>\<open>new RegExp(`\\b${queryWord}\\b`, 'i')\<close> from the query word
  as it is. The host parses the text as a pattern and throws a \<open>SyntaxError\<close> when it is
  not one. \<open>scanPattern\<close> reads a pattern from left to right and recognises these errors:
  a backslash at the end, a character class or a group that is not closed, a closing
  parenthesis without an opening one, a group that starts with \<open>(?\<close> and is none of
  \<open>(?:\<close>, \<open>(?=\<close>, \<open>(?!\<close>, \<open>(?<\<close>, and a quantifier with nothing to repeat. Its state
  is the mode, the depth of open groups, whether the last term can take a quantifier,
  whether a \<open>?\<close> would make the last quantifier lazy, and whether the last code unit
  opened a group. Errors that it does not recognise (numbers out of order in a braced
  quantifier, a class range out of order, a malformed group name) are left to the host.
\<close>

datatype scan_mode = Normal | Escape | ClassBody | ClassEscape | Brace | GroupKind

definition isBraceQuantifier :: "jsstring \<Rightarrow> bool" where
  "isBraceQuantifier cs =
     (takeWhile isDigit cs \<noteq> []
      \<and> (case dropWhile isDigit cs of
           [] \<Rightarrow> False
         | c # r \<Rightarrow> c = 125
                    \<or> (c = 44 \<and> (case dropWhile isDigit r of [] \<Rightarrow> False | c2 # r2 \<Rightarrow> c2 = 125))))"

fun scanPattern :: "scan_mode \<Rightarrow> nat \<Rightarrow> bool \<Rightarrow> bool \<Rightarrow> bool \<Rightarrow> jsstring \<Rightarrow> bool" where
  "scanPattern Normal depth quantifiable lazyOk afterParen [] = (depth = 0)"
| "scanPattern Normal depth quantifiable lazyOk afterParen (c # cs) =
     (if c = 92 then scanPattern Escape depth quantifiable False False cs
      else if c = 40 then scanPattern Normal (depth + 1) False False True cs
      else if c = 41 then depth > 0 \<and> scanPattern Normal (depth - 1) True False False cs
      else if c = 91 then scanPattern ClassBody depth quantifiable False False cs
      else if c = 63 \<and> afterParen then scanPattern GroupKind depth False False False cs
      else if c = 63 \<and> lazyOk then scanPattern Normal depth False False False cs
      else if c = 42 \<or> c = 43 \<or> c = 63
      then quantifiable \<and> scanPattern Normal depth False True False cs
      else if c = 123 \<and> isBraceQuantifier cs
      then quantifiable \<and> scanPattern Brace depth False False False cs
      else if c = 124 \<or> c = 94 \<or> c = 36 then scanPattern Normal depth False False False cs
      else scanPattern Normal depth True False False cs)"
| "scanPattern Escape depth quantifiable lazyOk afterParen [] = False"
| "scanPattern Escape depth quantifiable lazyOk afterParen (c # cs) =
     scanPattern Normal depth (c \<noteq> 98 \<and> c \<noteq> 66) False False cs"
| "scanPattern ClassBody depth quantifiable lazyOk afterParen [] = False"
| "scanPattern ClassBody depth quantifiable lazyOk afterParen (c # cs) =
     (if c = 92 then scanPattern ClassEscape depth quantifiable False False cs
      else if c = 93 then scanPattern Normal depth True False False cs
      else scanPattern ClassBody depth quantifiable False False cs)"
| "scanPattern ClassEscape depth quantifiable lazyOk afterParen [] = False"
| "scanPattern ClassEscape depth quantifiable lazyOk afterParen (c # cs) =
     scanPattern ClassBody depth quantifiable False False cs"
| "scanPattern Brace depth quantifiable lazyOk afterParen [] = False"
| "scanPattern Brace depth quantifiable lazyOk afterParen (c # cs) =
     (if c = 125 then scanPattern Normal depth False True False cs
      else scanPattern Brace depth quantifiable False False cs)"
| "scanPattern GroupKind depth quantifiable lazyOk afterParen [] = False"
| "scanPattern GroupKind depth quantifiable lazyOk afterParen (c # cs) =
     (if c = 58 \<or> c = 61 \<or> c = 33 \<or> c = 60 then scanPattern Normal depth False False False cs
      else False)"

definition isPattern :: "jsstring \<Rightarrow> bool" where
  "isPattern p = scanPattern Normal 0 False False False p"

text \<open>The code units that mean something other than themselves in a pattern.\<close>

definition isSyntaxCharacter :: "nat \<Rightarrow> bool" where
  "isSyntaxCharacter c =
     (c = 92 \<or> c = 94 \<or> c = 36 \<or> c = 46 \<or> c = 42 \<or> c = 43 \<or> c = 63 \<or> c = 40 \<or> c = 41
      \<or> c = 91 \<or> c = 93 \<or> c = 123 \<or> c = 125 \<or> c = 124)"

text \<open>
  \<open>new RegExp(`\\b${queryWord}\\b`, 'i').test(content)\<close>. A pattern that does not parse
  throws. A word without syntax characters is matched as a literal between two word
  boundaries. For every other word the pattern is a regular expression of the user's
  making, and what it matches is the host's to say: \<open>hostTest\<close> is that verdict.
\<close>

definition wordBoundaryTest :: "(jsstring \<Rightarrow> jsstring \<Rightarrow> bool) \<Rightarrow> jsstring \<Rightarrow> jsstring \<Rightarrow> js_error + bool" where
  "wordBoundaryTest hostTest queryWord cont =
     (let pattern = [92, 98] @ queryWord @ [92, 98]
      in if \<not> isPattern pattern then Inl SyntaxError
         else if list_all (\<lambda>c. \<not> isSyntaxCharacter c) queryWord
         then Inr (rx_test (wordRegex queryWord) cont)
         else Inr (hostTest pattern cont))"

text \<open>The loop over the query words in the fallback search, adding to \<open>score\<close>.\<close>

fun queryWordScores :: "(jsstring \<Rightarrow> jsstring \<Rightarrow> bool) \<Rightarrow> jsstring \<Rightarrow> jsstring list \<Rightarrow> real \<Rightarrow> js_error + real" where
  "queryWordScores hostTest cont [] sc = Inr sc"
| "queryWordScores hostTest cont (queryWord # rest) sc =
     (if str_includes cont queryWord
      then bindE (wordBoundaryTest hostTest queryWord cont)
             (\<lambda>boundary. queryWordScores hostTest cont rest (sc + 2 + (if boundary then 1 else 0)))
      else queryWordScores hostTest cont rest sc)"

definition fallbackChunkScore ::
  "(jsstring \<Rightarrow> jsstring \<Rightarrow> bool) \<Rightarrow> jsstring \<Rightarrow> jsstring list \<Rightarrow> jsstring list \<Rightarrow> TextChunk \<Rightarrow> js_error + real" where
  "fallbackChunkScore hostTest queryLower queryWords expandedTerms ch =
     (let cont = toLowerCase (content ch);
          phraseScore = (if str_includes cont queryLower then 5 else 0)
      in bindE (queryWordScores hostTest cont queryWords phraseScore)
           (\<lambda>sc.
              let expandedScore = real (length (filter (\<lambda>term. str_includes cont term \<and> term \<notin> set queryWords)
                                                  expandedTerms));
                  totalWords = length (splitOn isWhiteSpace cont);
                  matchedWords = length (filter (\<lambda>word. str_includes cont word) queryWords);
                  density = real matchedWords / real (max totalWords 1)
              in Inr (sc + expandedScore + pdf_getContextualScore queryLower cont + density * 2)))"

text \<open>The two nested loops of \<open>searchDocuments\<close>, over the chunks of the ready documents.\<close>

fun fallbackChunks ::
  "(jsstring \<Rightarrow> jsstring \<Rightarrow> bool) \<Rightarrow> jsstring \<Rightarrow> jsstring list \<Rightarrow> jsstring list \<Rightarrow> ProcessedDocument
     \<Rightarrow> TextChunk list \<Rightarrow> SearchResult list \<Rightarrow> js_error + SearchResult list" where
  "fallbackChunks hostTest queryLower queryWords expandedTerms doc [] results = Inr results"
| "fallbackChunks hostTest queryLower queryWords expandedTerms doc (ch # rest) results =
     bindE (fallbackChunkScore hostTest queryLower queryWords expandedTerms ch)
       (\<lambda>sc. fallbackChunks hostTest queryLower queryWords expandedTerms doc rest
                (if sc > 0 then results @ [\<lparr>chunk = ch, score = sc, document = doc\<rparr>] else results))"

fun fallbackDocuments ::
  "(jsstring \<Rightarrow> jsstring \<Rightarrow> bool) \<Rightarrow> jsstring \<Rightarrow> jsstring list \<Rightarrow> jsstring list \<Rightarrow> ProcessedDocument list
     \<Rightarrow> SearchResult list \<Rightarrow> js_error + SearchResult list" where
  "fallbackDocuments hostTest queryLower queryWords expandedTerms [] results = Inr results"
| "fallbackDocuments hostTest queryLower queryWords expandedTerms (doc # rest) results =
     (if status doc \<noteq> Ready
      then fallbackDocuments hostTest queryLower queryWords expandedTerms rest results
      else bindE (fallbackChunks hostTest queryLower queryWords expandedTerms doc (chunks doc) results)
             (fallbackDocuments hostTest queryLower queryWords expandedTerms rest))"

definition searchDocuments ::
  "(jsstring \<Rightarrow> jsstring \<Rightarrow> bool) \<Rightarrow> DocumentMap \<Rightarrow> jsstring \<Rightarrow> js_error + SearchResult list" where
  "searchDocuments hostTest documents query =
     (let queryLower = toLowerCase query;
          queryWords = filter (\<lambda>word. length word > 2) (splitOn isWhiteSpace queryLower)
      in bindE (expandSearchTerms queryWords)
           (\<lambda>expandedTerms.
              bindE (fallbackDocuments hostTest queryLower queryWords expandedTerms
                       (getAllDocuments documents) [])
                (\<lambda>results. Inr (take 6 (sortBy (\<lambda>a b. score b - score a) results)))))"

record AnswerSource =
  src_document :: jsstring
  src_page :: nat
  src_excerpt :: jsstring

record ChatResponse =
  answer :: jsstring
  sources :: "AnswerSource list"

text \<open>The body of the \<open>try\<close> of \<open>generateAnswer\<close>, after \<open>require\<close> has given the module.\<close>

definition enhancedAnswer :: "DocumentMap \<Rightarrow> jsstring \<Rightarrow> js_error + ChatResponse" where
  "enhancedAnswer documentMap query =
     (let documents = getAllDocuments documentMap
      in if length documents = 0
         then Inr \<lparr>answer = asc ''No documents are currently available for analysis. Please upload and process some documents first.'',
                   sources = []\<rparr>
         else bindE (eqa_generateAnswer query documents)
                (\<lambda>result.
                   let srcs = map (\<lambda>source. \<lparr>src_document = es_document source,
                                               src_page = es_page source,
                                               src_excerpt = es_excerpt source\<rparr>)
                                  (ea_sources result);
                       withConfidence =
                         ea_answer result
                         @ (if ea_confidence result > 0.7
                            then [10, 10] @ asc ''*High confidence answer based on document content*''
                            else if ea_confidence result > 0.4
                            then [10, 10] @ asc ''*Moderate confidence - you may want to ask for clarification*''
                            else []);
                       withFollowUps =
                         (if length (ea_suggestedFollowUps result) > 0
                          then withConfidence @ [10, 10]
                               @ asc ''**Follow-up questions you might ask:**'' @ [10]
                               @ concat (map (\<lambda>(index, followUp). decimal (index + 1) @ asc ''. '' @ followUp @ [10])
                                           (enumerate 0 (take 3 (ea_suggestedFollowUps result))))
                          else withConfidence)
                   in Inr \<lparr>answer = withFollowUps, sources = srcs\<rparr>))"

text \<open>The \<open>catch\<close> block of \<open>generateAnswer\<close>: the simple search and its answer.\<close>

definition fallbackAnswer :: "(jsstring \<Rightarrow> jsstring \<Rightarrow> bool) \<Rightarrow> DocumentMap \<Rightarrow> jsstring \<Rightarrow> js_error + ChatResponse" where
  "fallbackAnswer hostTest documentMap query =
     bindE (searchDocuments hostTest documentMap query)
       (\<lambda>searchResults.
          case searchResults of
            [] \<Rightarrow>
              Inr \<lparr>answer = asc ''I couldn'' @ [39] @ asc ''t find specific information about '' @ [34]
                            @ query @ [34]
                            @ asc '' in the uploaded documents. Please try rephrasing your question with different keywords.'',
                   sources = []\<rparr>
          | topResult # rest \<Rightarrow>
              Inr \<lparr>answer = asc ''Based on your documents: '' @ content (chunk topResult),
                   sources = map (\<lambda>result.
                                    \<lparr>src_document = docName (document result),
                                     src_page = chunkPage (chunk result),
                                     src_excerpt = (if length (content (chunk result)) > 120
                                                    then take 120 (content (chunk result)) @ asc ''...''
                                                    else content (chunk result))\<rparr>)
                                 (take 3 searchResults)\<rparr>)"

text \<open>
  \<open>generateAnswer\<close>. The first statement of the \<open>try\<close> is
  \<open>require('./enhancedQuestionAnswering')\<close>; \<open>requireWorks\<close> tells whether the host has a
  \<open>require\<close> that finds the module. Where it has none (a browser that loads ES modules)
  the statement throws a \<open>ReferenceError\<close> and the \<open>catch\<close> block runs.
\<close>

definition generateAnswer ::
  "bool \<Rightarrow> (jsstring \<Rightarrow> jsstring \<Rightarrow> bool) \<Rightarrow> DocumentMap \<Rightarrow> jsstring \<Rightarrow> js_error + ChatResponse" where
  "generateAnswer requireWorks hostTest documentMap query =
     tryCatch (if requireWorks then enhancedAnswer documentMap query else Inl ReferenceError)
       (\<lambda>enhancedError. fallbackAnswer hostTest documentMap query)"

text \<open>\<open>api.askQuestion\<close>: the answer as \<open>data\<close>, or the message of what was thrown as \<open>error\<close>.\<close>

record ApiResponse =
  data :: "ChatResponse option"
  error :: "jsstring option"

definition askQuestion ::
  "bool \<Rightarrow> (jsstring \<Rightarrow> jsstring \<Rightarrow> bool) \<Rightarrow> (js_error \<Rightarrow> jsstring) \<Rightarrow> DocumentMap \<Rightarrow> jsstring \<Rightarrow> ApiResponse" where
  "askQuestion requireWorks hostTest message documentMap question =
     (case generateAnswer requireWorks hostTest documentMap question of
        Inr result \<Rightarrow> \<lparr>data = Some result, error = None\<rparr>
      | Inl e \<Rightarrow> \<lparr>data = None, error = Some (asc ''Failed to process question: '' @ message e)\<rparr>)"

section \<open>The FAQ system\<close>

record FAQItem =
  faqId :: jsstring
  question :: jsstring
  faqAnswer :: jsstring
  category :: jsstring
  popularity :: nat
  faqKeywords :: "jsstring list"
  lastAsked :: int
  timesAsked :: nat

text \<open>
  \<open>items.slice(0, limit)\<close> for a whole number \<open>limit\<close>: a negative limit counts from the
  end.
\<close>

definition sliceFromStart :: "int \<Rightarrow> 'a list \<Rightarrow> 'a list" where
  "sliceFromStart limit xs =
     (if limit \<ge> 0 then take (nat limit) xs else take (nat (int (length xs) + limit)) xs)"

text \<open>
  \<open>getTrendingQuestions\<close>, with the value of \<open>Date.now()\<close> given. The comparator is the
  one of the source, names included.
\<close>

definition trendingComparator :: "int \<Rightarrow> FAQItem \<Rightarrow> FAQItem \<Rightarrow> real" where
  "trendingComparator now a b =
     (let aScore = real (timesAsked b) * (real_of_int (lastAsked b) / real_of_int now);
          bScore = real (timesAsked a) * (real_of_int (lastAsked a) / real_of_int now)
      in bScore - aScore)"

definition getTrendingQuestions :: "int \<Rightarrow> FAQItem list \<Rightarrow> int \<Rightarrow> FAQItem list" where
  "getTrendingQuestions now faqItems limit =
     (let recentThreshold = now - 7 * 24 * 60 * 60 * 1000
      in sliceFromStart limit
           (sortBy (trendingComparator now)
              (filter (\<lambda>faq. lastAsked faq \<ge> recentThreshold) faqItems)))"

section \<open>Predefined answers\<close>














section \<open>The chat: sending a message\<close>








section \<open>Notions of the claims and example data\<close>

text \<open>
  A plain sentence, for the examples of chunking: not empty, without white space and
  without a sentence terminator.
\<close>

definition plainSentence :: "jsstring \<Rightarrow> bool" where
  "plainSentence s = (s \<noteq> [] \<and> list_all (\<lambda>c. \<not> isWhiteSpace c \<and> \<not> isTerminator c) s)"

text \<open>A chunk with the given content, and a document named \<open>Notes\<close> that holds it.\<close>

definition exampleChunk :: "string \<Rightarrow> TextChunk" where
  "exampleChunk s = \<lparr>content = asc s, chunkPage = 1, chunkIndex = 0, chunkKeywords = []\<rparr>"

definition exampleDoc :: "DocStatus \<Rightarrow> string \<Rightarrow> ProcessedDocument" where
  "exampleDoc st s =
     \<lparr>docId = asc ''d1'', docName = asc ''Notes'', docSize = 10, uploadedAt = 0, status = st,
      pageCount = 1, pages = [], chunks = [exampleChunk s],
      fullText = [], cleanedFullText = None, processingQuality = None, textImprovements = None\<rparr>"

text \<open>Two entries of the FAQ list, asked a hundred times and once, both at the same moment.\<close>

definition faqOften :: FAQItem where
  "faqOften = \<lparr>faqId = asc ''f1'', question = asc ''What are the main findings or results?'',
                faqAnswer = [], category = asc ''Results'', popularity = 85, faqKeywords = [],
                lastAsked = 1700000000000, timesAsked = 100\<rparr>"

definition faqOnce :: FAQItem where
  "faqOnce = \<lparr>faqId = asc ''f2'', question = asc ''What data sources were used?'',
               faqAnswer = [], category = asc ''Data'', popularity = 55, faqKeywords = [],
               lastAsked = 1700000000000, timesAsked = 1\<rparr>"

text \<open>The trending score that the claim speaks of.\<close>

definition trendingScore :: "int \<Rightarrow> FAQItem \<Rightarrow> real" where
  "trendingScore now faq = real (timesAsked faq) * (real_of_int (lastAsked faq) / real_of_int now)"

text \<open>A family of stages in which the OCR correction throws.\<close>

definition brokenStages :: Stages where
  "brokenStages = (hostStages id)\<lparr>st_correctOCRErrors := (\<lambda>t. Inl RangeError)\<rparr>"



definition wordCount :: "jsstring \<Rightarrow> nat" where
  "wordCount cont = length (splitOn isWhiteSpace cont)"






text \<open>
  For the examples of \<open>processFile\<close>: an exception message that is empty, a file, and what
  the extractor returns for a document of three pages whose only text is \<open>!!!\<close>.
\<close>

definition noMessage :: "js_error \<Rightarrow> jsstring" where
  "noMessage e = []"

definition exampleFile :: FileInfo where
  "exampleFile = \<lparr>fileName = asc ''scan.pdf'', fileSize = 2048\<rparr>"

definition sparseExtraction :: ExtractedTextData where
  "sparseExtraction = \<lparr>ex_fullText = asc ''!!!'', ex_pages = [\<lparr>page = 1, pageText = asc ''!!!''\<rparr>],
                        ex_pageCount = 3\<rparr>"

section \<open>Properties\<close>

lemma asc_simps:
  "asc [] = []"
  "asc (c # cs) = of_char c # asc cs"
  by (simp_all add: asc_def)

lemmas text_defs = asc_simps toLowerCase_def lowerUnit_def isUpper_def isLower_def isDigit_def
  isWordChar_def isWhiteSpace_def isTerminator_def trim_def splitOn_def

lemmas rx_defs = rx_replace_def rx_match_all_def rx_test_def rx_replace_first_def unit_def lit_def
  lit_i_def isWordAt_def headUnit_def isLineTerminator_def

lemmas stage_defs = fixEncodingIssues_def encodingFixes_def applyReplacements_def
  correctOCRErrors_def commonOCRErrors_def wordFixes_def isPunct_def normalizeWhitespace_def
  isSpaceOrTab_def standardizeFormatting_def

subsection \<open>Chunk size\<close>

lemma splitRuns_plain:
  "xs \<noteq> [] \<Longrightarrow> list_all (\<lambda>c. \<not> p c) xs \<Longrightarrow>
   splitRuns p b cur (xs @ rest) = splitRuns p False (rev xs @ cur) rest"
proof (induction xs arbitrary: b cur)
  case Nil
  then show ?case by simp
next
  case (Cons x xs)
  show ?case
  proof (cases "xs = []")
    case True
    with Cons.prems show ?thesis by simp
  next
    case False
    with Cons.prems Cons.IH[of False "x # cur"] show ?thesis by simp
  qed
qed

lemma trim_plain:
  assumes "s \<noteq> []" "\<not> isWhiteSpace (hd s)" "\<not> isWhiteSpace (last s)"
  shows "trim s = s"
proof -
  from assms have a: "dropWhile isWhiteSpace s = s" by (cases s) auto
  from assms have "rev s \<noteq> []" "\<not> isWhiteSpace (hd (rev s))" by (auto simp: hd_rev)
  then have b: "dropWhile isWhiteSpace (rev s) = rev s" by (cases "rev s") auto
  show ?thesis by (simp add: trim_def a b)
qed

lemma trim_lead_space:
  assumes "s \<noteq> []" "\<not> isWhiteSpace (hd s)" "\<not> isWhiteSpace (last s)"
  shows "trim (32 # s) = s"
proof -
  have "isWhiteSpace 32" by (simp add: isWhiteSpace_def)
  then have "trim (32 # s) = trim s" by (simp add: trim_def)
  then show ?thesis using assms by (simp add: trim_plain)
qed

lemma trim_trail_space:
  assumes "s \<noteq> []" "\<not> isWhiteSpace (hd s)"
  shows "trim (s @ [46, 32]) = s @ [46]"
proof -
  have ws: "isWhiteSpace 32" "\<not> isWhiteSpace 46" by (simp_all add: isWhiteSpace_def)
  from assms have a: "dropWhile isWhiteSpace (s @ [46, 32]) = s @ [46, 32]" by (cases s) auto
  show ?thesis by (simp add: trim_def a ws)
qed

lemma plain_ends:
  assumes "plainSentence s"
  shows "s \<noteq> []" "\<not> isWhiteSpace (hd s)" "\<not> isWhiteSpace (last s)"
        "list_all (\<lambda>c. \<not> isTerminator c) s"
  using assms by (auto simp: plainSentence_def list_all_iff)

text \<open>
  Two plain sentences that fit the bound together with the separator between them, but
  not with the separator after the second, end up in one chunk: the chunk is the first
  sentence, a dot and a space, the second sentence and a dot.
\<close>

lemma two_sentences_one_chunk:
  assumes p1: "plainSentence s1" and p2: "plainSentence s2"
    and fits: "length s1 + 2 + length s2 \<le> maxChunkSize"
  shows "map content (createTextChunks [\<lparr>page = n, pageText = s1 @ [46, 32] @ s2\<rparr>] maxChunkSize)
           = [s1 @ [46, 32] @ s2 @ [46]]"
proof -
  note e1 = plain_ends[OF p1] and e2 = plain_ends[OF p2]
  have t: "isTerminator 46" "\<not> isTerminator 32" by (simp_all add: isTerminator_def)
  have "splitRuns isTerminator False [] (s1 @ 46 # 32 # s2)
          = splitRuns isTerminator False (rev s1 @ []) (46 # 32 # s2)"
    by (rule splitRuns_plain) (use e1 in auto)
  also have "\<dots> = s1 # splitRuns isTerminator False [32] (s2 @ [])"
    using t by simp
  also have "splitRuns isTerminator False [32] (s2 @ []) = splitRuns isTerminator False (rev s2 @ [32]) []"
    by (rule splitRuns_plain) (use e2 in auto)
  finally have split: "splitOn isTerminator (s1 @ 46 # 32 # s2) = [s1, 32 # s2]"
    by (simp add: splitOn_def)
  have tr1: "trim s1 = s1" using e1 by (simp add: trim_plain)
  have tr2: "trim (32 # s2) = s2" using e2 by (simp add: trim_lead_space)
  have ne: "s1 @ 46 # 32 # s2 \<noteq> []" by simp
  have hd12: "\<not> isWhiteSpace (hd (s1 @ 46 # 32 # s2))" using e1 by (cases s1) auto
  have tr3: "trim (s1 @ 46 # 32 # s2 @ [46, 32]) = s1 @ 46 # 32 # s2 @ [46]"
    using trim_trail_space[OF ne hd12] by simp
  have flt: "filter (\<lambda>s. trim s \<noteq> []) (splitOn isTerminator (s1 @ 46 # 32 # s2)) = [s1, 32 # s2]"
    using e1(1) e2(1) by (simp add: split tr1 tr2)
  have loop: "chunkSentences maxChunkSize n [s1, 32 # s2] ([], 0, [])
                = ([], 0, s1 @ 46 # 32 # s2 @ [46, 32])"
    using fits e1(1) e2(1) by (simp add: tr1 tr2 Let_def asc_simps)
  show ?thesis
    using e1(1) e2(1)
    by (simp add: createTextChunks_def chunkPageText_def flt loop tr3 Let_def
        del: chunkSentences.simps)
qed

text \<open>
  C2. The chunk size bound fails under the default \<open>maxChunkSize\<close> of 500: a page with
  a sentence of 496 letters \<open>a\<close> and the sentence \<open>bc\<close> gives one chunk that holds both
  sentences and has 501 code units. The test before appending compares the buffer plus
  the sentence with the bound and leaves out the separator that is appended with it.
\<close>

theorem chunk_exceeds_bound:
  "map content (createTextChunks [\<lparr>page = 1, pageText = replicate 496 97 @ asc ''. bc''\<rparr>] 500)
     = [replicate 496 97 @ asc ''. bc.'']
   \<and> length (replicate 496 (97::nat) @ asc ''. bc.'') = 501"
proof -
  have p1: "plainSentence (replicate 496 97)"
    by (simp add: plainSentence_def list_all_iff isWhiteSpace_def isTerminator_def)
  have p2: "plainSentence (asc ''bc'')"
    by (simp add: plainSentence_def asc_simps isWhiteSpace_def isTerminator_def)
  have "length (replicate 496 (97::nat)) + 2 + length (asc ''bc'') \<le> 500"
    by (simp add: asc_simps)
  from two_sentences_one_chunk[OF p1 p2 this, of 1]
  show ?thesis by (simp add: asc_simps)
qed

subsection \<open>Trending questions\<close>

text \<open>
  C8. The order of the trending questions, on a list of two items both asked within the
  last week: the item asked a hundred times has the trending score 100, the item asked
  once the score 1. The comparator computes \<open>aScore\<close> from \<open>b\<close> and \<open>bScore\<close> from \<open>a\<close>, so
  the sort is ascending: the item asked once comes first, and with the limit 1 it is the
  only one returned.
\<close>

theorem trending_order_ascending:
  "trendingScore 1700000000000 faqOften = 100
   \<and> trendingScore 1700000000000 faqOnce = 1
   \<and> getTrendingQuestions 1700000000000 [faqOften, faqOnce] 5 = [faqOnce, faqOften]
   \<and> getTrendingQuestions 1700000000000 [faqOften, faqOnce] 1 = [faqOnce]"
  by (simp add: getTrendingQuestions_def sortBy_def trendingComparator_def sliceFromStart_def
      trendingScore_def faqOften_def faqOnce_def)

subsection \<open>Retrieval and confidence\<close>





lemma search_not_ready:
  "list_all (\<lambda>d. status d \<noteq> Ready) docs \<Longrightarrow> performSemanticSearch query docs = []"
  by (induction docs) (auto simp: performSemanticSearch_def scoreChunks_def sortBy_def Let_def)

lemma sum_list_zero: "(\<And>x. x \<in> set xs \<Longrightarrow> f x = 0) \<Longrightarrow> sum_list (map f xs) = (0::real)"
  by (induction xs) auto

text \<open>A query that matches no query pattern gets no contextual score.\<close>

lemma contextual_zero:
  assumes "list_all (\<lambda>row. \<not> testAny (fst row) query) contextPatterns"
  shows "getContextualScore query c = 0"
  unfolding getContextualScore_def
  by (rule sum_list_zero) (use assms in \<open>auto simp: list_all_iff\<close>)

text \<open>The retrieval on the example documents, for the query \<open>cats\<close>.\<close>

lemma terms_cats: "extractQueryTerms (toLowerCase (asc ''cats'')) = [asc ''cats'']"
  by (simp add: extractQueryTerms_def stopWords_def text_defs rx_defs)

lemma ctx_cats: "getContextualScore (asc ''cats'') c = 0"
  by (rule contextual_zero) (simp add: contextPatterns_def testAny_def text_defs rx_defs)


lemma score_dogs_bark:
  "calculateSemanticScore [asc ''cats''] (exampleChunk ''dogs bark'') (exampleDoc st s) = 0"
proof -
  have lc: "toLowerCase (asc ''dogs bark'') = asc ''dogs bark''" by (simp add: text_defs)
  have ln: "toLowerCase (asc ''Notes'') = asc ''notes''" by (simp add: text_defs)
  have inc: "\<not> str_includes (asc ''dogs bark'') (asc ''cats'')" by (simp add: text_defs)
  have ninc: "\<not> str_includes (asc ''notes'') (asc ''cats'')" by (simp add: text_defs)
  show ?thesis
    by (simp add: calculateSemanticScore_def exampleChunk_def exampleDoc_def lc ln inc ninc
        ctx_cats wordScore_def enumerate_eq_zip Let_def)
qed


lemma search_dogs_bark:
  "performSemanticSearch (asc ''cats'') [exampleDoc Ready ''dogs bark''] = []"
proof -
  have "scoreChunks [asc ''cats''] (exampleDoc Ready ''dogs bark'') = []"
    using score_dogs_bark[of Ready "''dogs bark''"]
    by (simp add: scoreChunks_def Let_def) (simp add: exampleDoc_def)
  then show ?thesis
    by (simp add: performSemanticSearch_def terms_cats sortBy_def Let_def)
qed



subsection \<open>No results\<close>

text \<open>
  C4, as the claim has it, fails when no document is ready: for a collection whose only
  document is still being processed the retrieval is empty, and the answer is the
  message about processed documents, not the message about information that could not be
  found.
\<close>

theorem no_results_counterexample:
  "performSemanticSearch (asc ''cats'') [exampleDoc Processing ''cats purr''] = []
   \<and> eqa_generateAnswer (asc ''cats'') [exampleDoc Processing ''cats purr'']
       = Inr \<lparr>ea_answer = noProcessedDocumentsMessage, ea_confidence = 0, ea_sources = [],
              ea_suggestedFollowUps = generateGenericFollowUps [exampleDoc Processing ''cats purr'']\<rparr>
   \<and> noProcessedDocumentsMessage \<noteq> couldNotFindMessage (asc ''cats'')"
proof -
  have s: "performSemanticSearch (asc ''cats'') [exampleDoc Processing ''cats purr''] = []"
    by (rule search_not_ready) (simp add: exampleDoc_def)
  have "noProcessedDocumentsMessage \<noteq> couldNotFindMessage (asc ''cats'')"
    by (simp add: noProcessedDocumentsMessage_def couldNotFindMessage_def asc_simps)
  with s show ?thesis
    by (simp add: eqa_generateAnswer_def generateNoResultsAnswer_def exampleDoc_def Let_def)
qed

text \<open>
  C4, amended. When the retrieval is empty the synthesizer returns the confidence 0, no
  sources and the generic follow-ups; the answer is the message that nothing was found
  about the query when some document is ready, and the message that there are no
  processed documents when none is.
\<close>

theorem no_results_answer:
  assumes "performSemanticSearch query docs = []"
  shows "eqa_generateAnswer query docs =
           Inr \<lparr>ea_answer = (if list_ex (\<lambda>d. status d = Ready) docs
                              then couldNotFindMessage query else noProcessedDocumentsMessage),
                ea_confidence = 0, ea_sources = [],
                ea_suggestedFollowUps = generateGenericFollowUps docs\<rparr>"
proof -
  have "(filter (\<lambda>d. status d = Ready) docs = []) = (\<not> list_ex (\<lambda>d. status d = Ready) docs)"
    by (simp add: filter_empty_conv list_ex_iff)
  then show ?thesis
    using assms by (auto simp: eqa_generateAnswer_def generateNoResultsAnswer_def Let_def)
qed

theorem no_results_answer_witness:
  "performSemanticSearch (asc ''cats'') [exampleDoc Ready ''dogs bark''] = []
   \<and> eqa_generateAnswer (asc ''cats'') [exampleDoc Ready ''dogs bark'']
       = Inr \<lparr>ea_answer = couldNotFindMessage (asc ''cats''), ea_confidence = 0, ea_sources = [],
              ea_suggestedFollowUps = generateGenericFollowUps [exampleDoc Ready ''dogs bark'']\<rparr>"
  using no_results_answer[OF search_dogs_bark] search_dogs_bark
  by (simp add: exampleDoc_def)

subsection \<open>The score of a chunk that contains the query phrase\<close>

















subsection \<open>Predefined answers\<close>














subsection \<open>The text processor\<close>

lemma processTextWith_returns:
  "\<exists>r. processTextWith S t options = Inr r"
  by (cases "processBody S t options") (simp_all add: processTextWith_def tryCatch_def)

lemma processTextWith_fallback:
  "processBody S t options = Inl e \<Longrightarrow> processTextWith S t options = Inr (processFallback t)"
  by (simp add: processTextWith_def tryCatch_def)

text \<open>
  C9. \<open>processText\<close> returns a result whatever its stages do, and when the body of its
  \<open>try\<close> throws, the result carries the input text unchanged, the quality score 0.5 and
  the one note that an error occurred.
\<close>

theorem processText_never_throws:
  "(\<exists>r. processTextWith S t options = Inr r)
   \<and> (processBody S t options = Inl e \<longrightarrow>
        (\<exists>r. processTextWith S t options = Inr r \<and> cleanedText r = t \<and> qualityScore r = 0.5
              \<and> improvementsApplied r = [asc ''Error occurred during processing'']))"
  using processTextWith_returns[of S t options] processTextWith_fallback[of S t options e]
  by (auto simp: processFallback_def)

text \<open>
  The claim at work: with an OCR correction that throws a \<open>RangeError\<close>, the body throws
  on the text \<open>abc\<close> and \<open>processText\<close> returns the fallback result.
\<close>

theorem processText_never_throws_witness:
  "processBody brokenStages (asc ''abc'') noOptions = Inl RangeError
   \<and> (\<exists>r. processTextWith brokenStages (asc ''abc'') noOptions = Inr r \<and> cleanedText r = asc ''abc''
            \<and> qualityScore r = 0.5
            \<and> improvementsApplied r = [asc ''Error occurred during processing''])"
proof -
  have b: "processBody brokenStages (asc ''abc'') noOptions = Inl RangeError"
    by (simp add: processBody_def processSteps_def brokenStages_def hostStages_def noOptions_def
        flag_def bindE_def)
  with processText_never_throws[of brokenStages "asc ''abc''" noOptions RangeError]
  show ?thesis by simp
qed

text \<open>Under the default options the cleaned text is the composition of the first four stages.\<close>

lemma cleaned_default:
  "map_sum id cleanedText (processText nfkc t noOptions)
     = Inr (standardizeFormatting (normalizeWhitespace (correctOCRErrors (fixEncodingIssues nfkc t))))"
  by (simp add: processText_def processTextWith_def processBody_def processSteps_def hostStages_def
      noOptions_def flag_def bindE_def tryCatch_def Let_def)

lemma clean_sentence:
  "standardizeFormatting (normalizeWhitespace (correctOCRErrors (fixEncodingIssues id (asc ''this is a test''))))
     = asc ''thisisa test''"
proof -
  have "fixEncodingIssues id (asc ''this is a test'') = asc ''this is a test''" by (simp add: stage_defs text_defs rx_defs)
  moreover have "correctOCRErrors (asc ''this is a test'') = asc ''thisisa test''" by (simp add: stage_defs text_defs rx_defs)
  moreover have "normalizeWhitespace (asc ''thisisa test'') = asc ''thisisa test''" by (simp add: stage_defs text_defs rx_defs)
  moreover have "standardizeFormatting (asc ''thisisa test'') = asc ''thisisa test''" by (simp add: stage_defs text_defs rx_defs)
  ultimately show ?thesis by simp
qed

lemma clean_sentence_again:
  "standardizeFormatting (normalizeWhitespace (correctOCRErrors (fixEncodingIssues id (asc ''thisisa test''))))
     = asc ''thisisatest''"
proof -
  have "fixEncodingIssues id (asc ''thisisa test'') = asc ''thisisa test''" by (simp add: stage_defs text_defs rx_defs)
  moreover have "correctOCRErrors (asc ''thisisa test'') = asc ''thisisatest''" by (simp add: stage_defs text_defs rx_defs)
  moreover have "normalizeWhitespace (asc ''thisisatest'') = asc ''thisisatest''" by (simp add: stage_defs text_defs rx_defs)
  moreover have "standardizeFormatting (asc ''thisisatest'') = asc ''thisisatest''" by (simp add: stage_defs text_defs rx_defs)
  ultimately show ?thesis by simp
qed

text \<open>
  C10. Cleaning twice is not cleaning once. Under the default options, and with a
  normalisation that leaves ASCII text as it is, the sentence \<open>this is a test\<close> is cleaned
  to \<open>thisisa test\<close>, and that in turn to \<open>thisisatest\<close>: the word fix for spaces
  inside a word joins any two word characters that white space separates, and since a
  match consumes the character after the space, one pass leaves the space after a word
  of one letter for the next pass.
\<close>

theorem cleaning_not_idempotent:
  "map_sum id cleanedText (processText id (asc ''this is a test'') noOptions) = Inr (asc ''thisisa test'')
   \<and> map_sum id cleanedText (processText id (asc ''thisisa test'') noOptions) = Inr (asc ''thisisatest'')
   \<and> asc ''thisisa test'' \<noteq> asc ''thisisatest''"
  by (simp add: cleaned_default clean_sentence clean_sentence_again) (simp add: asc_simps)

subsection \<open>Processing a file\<close>

text \<open>Neither the text processor nor the cleaning of the pages throws.\<close>

lemma processText_returns: "\<exists>r. processText nfkc t options = Inr r"
  by (simp add: processText_def processTextWith_returns)

lemma bindE_returns: "\<exists>r. m = Inr r \<Longrightarrow> \<exists>x. bindE m (\<lambda>r. Inr (f r)) = Inr x"
  by (auto simp: bindE_def)

lemma quickClean_returns: "\<exists>c. quickClean nfkc t = Inr c"
  unfolding quickClean_def by (rule bindE_returns) (rule processText_returns)

lemma prepareForQA_returns: "\<exists>c secs imps. prepareForQA nfkc t = Inr (c, secs, imps)"
proof -
  have "\<exists>x. prepareForQA nfkc t = Inr x"
    unfolding prepareForQA_def by (rule bindE_returns) (rule processText_returns)
  then obtain x where "prepareForQA nfkc t = Inr x" by blast
  then show ?thesis by (cases x) auto
qed

lemma cleanPages_returns:
  "\<exists>ps. cleanPages nfkc pgs = Inr ps \<and> length ps = length pgs \<and> map page ps = map page pgs"
proof (induction pgs)
  case Nil
  then show ?case by simp
next
  case (Cons pg pgs)
  then obtain ps where ps: "cleanPages nfkc pgs = Inr ps" "length ps = length pgs" "map page ps = map page pgs"
    by auto
  obtain c where c: "quickClean nfkc (pageText pg) = Inr c" using quickClean_returns by blast
  show ?case by (simp add: ps c bindE_def)
qed

lemma map_of_mapSet: "map_of (mapSet k v m) k = Some v"
  by (induction m) auto

lemma processFileBody_ready:
  "\<exists>doc'. processFileBody nfkc doc (Inr d) = Inr doc' \<and> status doc' = Ready
      \<and> pageCount doc' = ex_pageCount d \<and> cleanPages nfkc (ex_pages d) = Inr (pages doc')
      \<and> length (pages doc') = length (ex_pages d)
      \<and> chunks doc' = createTextChunks (pages doc') 500
      \<and> docId doc' = docId doc \<and> docName doc' = docName doc"
proof -
  obtain c secs imps where p: "prepareForQA nfkc (ex_fullText d) = Inr (c, secs, imps)"
    using prepareForQA_returns by blast
  obtain ps where ps: "cleanPages nfkc (ex_pages d) = Inr ps" "length ps = length (ex_pages d)"
    using cleanPages_returns by blast
  show ?thesis by (simp add: processFileBody_def bindE_def p ps)
qed

lemma quickClean_stages:
  "quickClean nfkc t = Inr (standardizeFormatting (normalizeWhitespace (correctOCRErrors (fixEncodingIssues nfkc t))))"
  by (simp add: quickClean_def processText_def processTextWith_def processBody_def processSteps_def
      hostStages_def flag_def bindE_def tryCatch_def Let_def)

lemma clean_bangs:
  "standardizeFormatting (normalizeWhitespace (correctOCRErrors (fixEncodingIssues id (asc ''!!!'')))) = asc ''!''"
proof -
  have "fixEncodingIssues id (asc ''!!!'') = asc ''!!!''" by (simp add: stage_defs text_defs rx_defs)
  moreover have "correctOCRErrors (asc ''!!!'') = asc ''!!!''" by (simp add: stage_defs text_defs rx_defs)
  moreover have "normalizeWhitespace (asc ''!!!'') = asc ''!!!''" by (simp add: stage_defs text_defs rx_defs)
  moreover have "standardizeFormatting (asc ''!!!'') = asc ''!''" by (simp add: stage_defs text_defs rx_defs)
  ultimately show ?thesis by simp
qed

lemma chunks_bang: "createTextChunks [\<lparr>page = n, pageText = asc ''!''\<rparr>] 500 = []"
  by (simp add: createTextChunks_def chunkPageText_def text_defs Let_def)

text \<open>
  C3, as the claim has it, fails. The extractor reports three pages and returns one
  page, whose text \<open>!!!\<close> has no sentence. \<open>processFile\<close> stores the document as ready,
  with one page, the page count 3 and no chunks.
\<close>

theorem processFile_counterexample:
  "map_option status (getDocument (fst (processFile id noMessage (asc ''doc1'') 0 (Inr sparseExtraction) exampleFile [])) (asc ''doc1''))
     = Some Ready
   \<and> map_option (length \<circ> pages) (getDocument (fst (processFile id noMessage (asc ''doc1'') 0 (Inr sparseExtraction) exampleFile [])) (asc ''doc1''))
     = Some 1
   \<and> map_option pageCount (getDocument (fst (processFile id noMessage (asc ''doc1'') 0 (Inr sparseExtraction) exampleFile [])) (asc ''doc1''))
     = Some 3
   \<and> map_option chunks (getDocument (fst (processFile id noMessage (asc ''doc1'') 0 (Inr sparseExtraction) exampleFile [])) (asc ''doc1''))
     = Some []"
proof -
  let ?doc0 = "\<lparr>docId = asc ''doc1'', docName = fileName exampleFile, docSize = fileSize exampleFile,
                  uploadedAt = 0, status = Processing, pageCount = 0, pages = [], chunks = [],
                  fullText = [], cleanedFullText = None, processingQuality = None,
                  textImprovements = None\<rparr>"
  obtain doc where d: "processFileBody id ?doc0 (Inr sparseExtraction) = Inr doc" "status doc = Ready"
      "pageCount doc = ex_pageCount sparseExtraction"
      "cleanPages id (ex_pages sparseExtraction) = Inr (pages doc)"
      "chunks doc = createTextChunks (pages doc) 500"
    using processFileBody_ready[of id ?doc0 sparseExtraction] by blast
  have "cleanPages id (ex_pages sparseExtraction) = Inr [\<lparr>page = 1, pageText = asc ''!''\<rparr>]"
    by (simp add: sparseExtraction_def quickClean_stages clean_bangs bindE_def)
  with d(4) have p: "pages doc = [\<lparr>page = 1, pageText = asc ''!''\<rparr>]" by simp
  have g: "getDocument (fst (processFile id noMessage (asc ''doc1'') 0 (Inr sparseExtraction) exampleFile [])) (asc ''doc1'')
             = Some doc"
    using d(1) by (simp add: processFile_def Let_def getDocument_def)
  show ?thesis
    using d(2,3,5) by (simp add: g p chunks_bang) (simp add: sparseExtraction_def)
qed

text \<open>
  C3, amended. When the extraction returns, \<open>processFile\<close> stores and returns a document
  that is ready, whose page count is the one the extractor reported, whose pages are the
  extractor's pages, one for one, with cleaned text, and whose chunks are those of the
  cleaned pages under the bound 500, few or none. When the extraction throws, the stored
  document has the status error, no pages and no chunks, and \<open>processFile\<close> throws.
\<close>

theorem processFile_status:
  "(\<exists>doc. processFile nfkc message newId now (Inr d) file documents
            = (mapSet newId doc (mapSet newId
                 \<lparr>docId = newId, docName = fileName file, docSize = fileSize file,
                  uploadedAt = now, status = Processing, pageCount = 0, pages = [], chunks = [],
                  fullText = [], cleanedFullText = None, processingQuality = None,
                  textImprovements = None\<rparr> documents), Inr (newId, doc))
          \<and> getDocument (fst (processFile nfkc message newId now (Inr d) file documents)) newId = Some doc
          \<and> status doc = Ready
          \<and> pageCount doc = ex_pageCount d
          \<and> cleanPages nfkc (ex_pages d) = Inr (pages doc)
          \<and> length (pages doc) = length (ex_pages d)
          \<and> chunks doc = createTextChunks (pages doc) 500)
   \<and> (\<exists>doc. getDocument (fst (processFile nfkc message newId now (Inl e) file documents)) newId = Some doc
          \<and> snd (processFile nfkc message newId now (Inl e) file documents)
              = Inl (Error (asc ''Failed to process PDF: '' @ message e))
          \<and> status doc = Failed \<and> pageCount doc = 0 \<and> pages doc = [] \<and> chunks doc = [])"
proof
  let ?doc0 = "\<lparr>docId = newId, docName = fileName file, docSize = fileSize file,
                  uploadedAt = now, status = Processing, pageCount = 0, pages = [], chunks = [],
                  fullText = [], cleanedFullText = None, processingQuality = None,
                  textImprovements = None\<rparr>"
  obtain doc where d: "processFileBody nfkc ?doc0 (Inr d) = Inr doc" "status doc = Ready"
      "pageCount doc = ex_pageCount d" "cleanPages nfkc (ex_pages d) = Inr (pages doc)"
      "length (pages doc) = length (ex_pages d)" "chunks doc = createTextChunks (pages doc) 500"
    using processFileBody_ready[of nfkc ?doc0 d] by blast
  show "\<exists>doc. processFile nfkc message newId now (Inr d) file documents
            = (mapSet newId doc (mapSet newId ?doc0 documents), Inr (newId, doc))
          \<and> getDocument (fst (processFile nfkc message newId now (Inr d) file documents)) newId = Some doc
          \<and> status doc = Ready
          \<and> pageCount doc = ex_pageCount d
          \<and> cleanPages nfkc (ex_pages d) = Inr (pages doc)
          \<and> length (pages doc) = length (ex_pages d)
          \<and> chunks doc = createTextChunks (pages doc) 500"
    using d by (intro exI[of _ doc]) (simp add: processFile_def Let_def getDocument_def map_of_mapSet)
next
  show "\<exists>doc. getDocument (fst (processFile nfkc message newId now (Inl e) file documents)) newId = Some doc
          \<and> snd (processFile nfkc message newId now (Inl e) file documents)
              = Inl (Error (asc ''Failed to process PDF: '' @ message e))
          \<and> status doc = Failed \<and> pageCount doc = 0 \<and> pages doc = [] \<and> chunks doc = []"
    by (simp add: processFile_def processFileBody_def bindE_def Let_def getDocument_def map_of_mapSet)
qed

subsection \<open>The answer to a question\<close>

text \<open>
  Where the module of the enhanced answering loads, \<open>generateAnswer\<close> returns: no branch
  of the enhanced answer throws, so the \<open>catch\<close> block is never entered.
\<close>

lemma intelligent_answer_returns:
  "\<exists>a. generateIntelligentAnswer query results = Inr a"
proof (cases results)
  case Nil
  then show ?thesis by (simp add: generateIntelligentAnswer_def)
next
  case (Cons r rs)
  have c: "\<exists>a. generateComparisonAnswer (r0 # rest) = Inr a" for r0 rest
    by (cases rest) (simp_all add: generateComparisonAnswer_def)
  have l: "\<exists>a. generateListAnswer (r0 # rest) = Inr a" for r0 rest
    by (simp add: generateListAnswer_def Let_def)
  have x: "\<exists>a. generateContextualAnswer query (r0 # rest) = Inr a" for r0 rest
    by (simp add: generateContextualAnswer_def Let_def)
  from Cons show ?thesis
    by (simp add: generateIntelligentAnswer_def Let_def c l x)
qed

lemma eqa_generateAnswer_returns: "\<exists>r. eqa_generateAnswer query documents = Inr r"
proof -
  obtain a where "generateIntelligentAnswer query (performSemanticSearch query documents) = Inr a"
    using intelligent_answer_returns by blast
  then show ?thesis by (simp add: eqa_generateAnswer_def Let_def bindE_def)
qed

lemma enhanced_path_returns: "\<exists>r. generateAnswer True hostTest documentMap query = Inr r"
proof -
  obtain r where "eqa_generateAnswer query (getAllDocuments documentMap) = Inr r"
    using eqa_generateAnswer_returns by blast
  then show ?thesis
    by (simp add: generateAnswer_def tryCatch_def enhancedAnswer_def Let_def bindE_def)
qed

text \<open>
  C1. \<open>generateAnswer\<close> throws. Where \<open>require\<close> does not work the fallback search runs. For
  the question \<open>c++\<close> and a ready document with the chunk \<open>I like c++\<close> it builds the
  pattern \<^verbatim>\<open>\bc++\b\<close> from the unescaped word, which is not a pattern (nothing to repeat),
  and the \<open>SyntaxError\<close> leaves \<open>generateAnswer\<close>, since it is thrown in the \<open>catch\<close>
  block; \<open>api.askQuestion\<close> turns it into an error response. For the question
  \<open>constructor\<close> the lookup in the synonym table finds the inherited property, and
  spreading it is a \<open>TypeError\<close>, whatever the documents are.
\<close>

theorem fallback_search_throws:
  "generateAnswer False hostTest [(asc ''d1'', exampleDoc Ready ''I like c++'')] (asc ''c++'') = Inl SyntaxError
   \<and> askQuestion False hostTest message [(asc ''d1'', exampleDoc Ready ''I like c++'')] (asc ''c++'')
       = \<lparr>data = None, error = Some (asc ''Failed to process question: '' @ message SyntaxError)\<rparr>
   \<and> generateAnswer False hostTest documents (asc ''constructor'') = Inl TypeError"
proof -
  have lq: "toLowerCase (asc ''c++'') = asc ''c++''" by (simp add: text_defs)
  have qw: "filter (\<lambda>word. length word > 2) (splitOn isWhiteSpace (asc ''c++'')) = [asc ''c++'']"
    by (simp add: text_defs)
  have ex: "expandSearchTerms [asc ''c++''] = Inr []"
    by (simp add: synonyms_def objectPrototypeKeys_def asc_simps)
  have lc: "toLowerCase (asc ''I like c++'') = asc ''i like c++''" by (simp add: text_defs)
  have inc: "str_includes (asc ''i like c++'') (asc ''c++'')" by (simp add: asc_simps)
  have bad: "\<not> isPattern ([92, 98] @ asc ''c++'' @ [92, 98])"
    by (simp add: isPattern_def asc_simps isBraceQuantifier_def)
  have wb: "wordBoundaryTest hostTest (asc ''c++'') (asc ''i like c++'') = Inl SyntaxError"
    using bad by (simp add: wordBoundaryTest_def Let_def)
  have sc: "fallbackChunkScore hostTest (asc ''c++'') [asc ''c++''] [] (exampleChunk ''I like c++'') = Inl SyntaxError"
    by (simp add: fallbackChunkScore_def exampleChunk_def lc inc wb bindE_def Let_def)
  have s: "searchDocuments hostTest [(asc ''d1'', exampleDoc Ready ''I like c++'')] (asc ''c++'') = Inl SyntaxError"
    using sc by (simp add: searchDocuments_def lq qw ex getAllDocuments_def bindE_def Let_def exampleDoc_def
        del: expandSearchTerms.simps)
  have g: "generateAnswer False hostTest [(asc ''d1'', exampleDoc Ready ''I like c++'')] (asc ''c++'') = Inl SyntaxError"
    by (simp add: generateAnswer_def tryCatch_def fallbackAnswer_def s bindE_def)
  have lq2: "toLowerCase (asc ''constructor'') = asc ''constructor''" by (simp add: text_defs)
  have qw2: "filter (\<lambda>word. length word > 2) (splitOn isWhiteSpace (asc ''constructor'')) = [asc ''constructor'']"
    by (simp add: text_defs)
  have ex2: "expandSearchTerms [asc ''constructor''] = Inl TypeError"
    by (simp add: synonyms_def objectPrototypeKeys_def asc_simps)
  have g2: "generateAnswer False hostTest documents (asc ''constructor'') = Inl TypeError"
    by (simp add: generateAnswer_def tryCatch_def fallbackAnswer_def searchDocuments_def lq2 qw2 ex2
        bindE_def Let_def del: expandSearchTerms.simps)
  show ?thesis by (simp add: g g2 askQuestion_def)
qed


end
